theory Spec2Isabelle
  imports Complex_Main "HOL-Library.AList"
begin

section \<open>JavaScript values read by fetch-jira-stories.js\<close>

text \<open>
  The script works on the values that the HTTP client hands over after parsing a JSON
  body, and on the object literals it builds from them. A number is a rational (a parsed
  JSON number is finite; the script never calculates with a number of the response, it
  only tests it for zero and copies it). An object is the association list of its own
  properties, looked up from the front. A string is the list of its code units.
\<close>

datatype jsval =
    JUndefined
  | JNull
  | JBool bool
  | JNum rat
  | JStr string
  | JArr "jsval list"
  | JObj "(string \<times> jsval) list"

text \<open>Every exception of the script is one of these values.\<close>

datatype jerror =
    TypeError
  | RequestError jsval string
  | FsError string

text \<open>
  \<open>RequestError d m\<close> is a rejected request: \<open>d\<close> is \<open>error.response?.data\<close>
  (\<open>JUndefined\<close> when there was no response) and \<open>m\<close> is \<open>error.message\<close>.
  \<open>FsError m\<close> is an exception of the file system module with message \<open>m\<close>.
\<close>

subsection \<open>Sequencing of expressions that may throw\<close>

definition ebind :: "jerror + 'a \<Rightarrow> ('a \<Rightarrow> jerror + 'b) \<Rightarrow> jerror + 'b" where
  "ebind m f = (case m of Inl e \<Rightarrow> Inl e | Inr v \<Rightarrow> f v)"

text \<open>\<open>Array.prototype.map\<close> with a callback that may throw: the first exception ends the loop.\<close>

fun sequenceE :: "(jerror + 'a) list \<Rightarrow> jerror + 'a list" where
  "sequenceE [] = Inr []"
| "sequenceE (m # ms) = ebind m (\<lambda>y. ebind (sequenceE ms) (\<lambda>ys. Inr (y # ys)))"

definition mapE :: "('a \<Rightarrow> jerror + 'b) \<Rightarrow> 'a list \<Rightarrow> jerror + 'b list" where
  "mapE f xs = sequenceE (map f xs)"

subsection \<open>Truthiness, property reads, optional chaining\<close>

fun truthy :: "jsval \<Rightarrow> bool" where
  "truthy JUndefined = False"
| "truthy JNull = False"
| "truthy (JBool b) = b"
| "truthy (JNum r) = (r \<noteq> 0)"
| "truthy (JStr s) = (s \<noteq> [])"
| "truthy (JArr xs) = True"
| "truthy (JObj kvs) = True"

fun nullish :: "jsval \<Rightarrow> bool" where
  "nullish JUndefined = True"
| "nullish JNull = True"
| "nullish v = False"

text \<open>
  \<open>lookupProp v k\<close> is the read \<open>v.k\<close> on a value that is neither \<open>null\<close> nor
  \<open>undefined\<close>, for the property names the script reads by name (\<open>key\<close>, \<open>fields\<close>,
  \<open>summary\<close>, \<open>description\<close>, \<open>content\<close>, \<open>text\<close>, \<open>status\<close>, \<open>name\<close>,
  \<open>statusCategory\<close>, \<open>priority\<close>, \<open>id\<close>, \<open>assignee\<close>, \<open>reporter\<close>,
  \<open>displayName\<close>, \<open>emailAddress\<close>, \<open>accountId\<close>, \<open>created\<close>, \<open>updated\<close>,
  \<open>components\<close>, \<open>labels\<close>, \<open>fixVersions\<close>, \<open>customfield_10016\<close>, \<open>issuelinks\<close>,
  \<open>type\<close>, \<open>inward\<close>, \<open>outward\<close>, \<open>inwardIssue\<close>, \<open>outwardIssue\<close>, \<open>total\<close>,
  \<open>issues\<close>). None of them is inherited from a built-in prototype, so the read finds an
  own property of an object or nothing.
\<close>

fun lookupProp :: "jsval \<Rightarrow> string \<Rightarrow> jsval" where
  "lookupProp (JObj kvs) k = (case map_of kvs k of Some v \<Rightarrow> v | None \<Rightarrow> JUndefined)"
| "lookupProp v k = JUndefined"

text \<open>\<open>v.k\<close>: a read on \<open>null\<close> or \<open>undefined\<close> throws.\<close>

definition getProp :: "jsval \<Rightarrow> string \<Rightarrow> jerror + jsval" where
  "getProp v k = (if nullish v then Inl TypeError else Inr (lookupProp v k))"

text \<open>\<open>v?.k\<close>\<close>

definition optProp :: "jsval \<Rightarrow> string \<Rightarrow> jsval" where
  "optProp v k = (if nullish v then JUndefined else lookupProp v k)"

text \<open>
  \<open>v[0]\<close> on a value that is neither \<open>null\<close> nor \<open>undefined\<close>: the first element of an
  array, the first code unit of a string, the own property \<open>0\<close> of an object.
\<close>

fun lookupIdx0 :: "jsval \<Rightarrow> jsval" where
  "lookupIdx0 (JArr xs) = (case xs of [] \<Rightarrow> JUndefined | x # _ \<Rightarrow> x)"
| "lookupIdx0 (JStr s) = (case s of [] \<Rightarrow> JUndefined | c # _ \<Rightarrow> JStr [c])"
| "lookupIdx0 (JObj kvs) = (case map_of kvs ''0'' of Some v \<Rightarrow> v | None \<Rightarrow> JUndefined)"
| "lookupIdx0 v = JUndefined"

text \<open>\<open>v?.[0]\<close>\<close>

definition optIdx0 :: "jsval \<Rightarrow> jsval" where
  "optIdx0 v = (if nullish v then JUndefined else lookupIdx0 v)"

text \<open>\<open>a || b\<close>: \<open>b\<close> is evaluated only when \<open>a\<close> is falsy.\<close>

definition eor :: "jerror + jsval \<Rightarrow> jerror + jsval \<Rightarrow> jerror + jsval" where
  "eor a b = ebind a (\<lambda>v. if truthy v then Inr v else b)"

text \<open>
  \<open>v?.map(f)\<close>: \<open>undefined\<close> when \<open>v\<close> is \<open>null\<close> or \<open>undefined\<close>; the mapped array when
  \<open>v\<close> is an array; otherwise \<open>v.map\<close> is not a function and the call throws.
\<close>

definition optMap :: "jsval \<Rightarrow> (jsval \<Rightarrow> jerror + jsval) \<Rightarrow> jerror + jsval" where
  "optMap v f =
     (if nullish v then Inr JUndefined
      else case v of
             JArr xs \<Rightarrow> ebind (mapE f xs) (\<lambda>ys. Inr (JArr ys))
           | _ \<Rightarrow> Inl TypeError)"

subsection \<open>Conversion to a string\<close>

fun joinWith :: "string \<Rightarrow> string list \<Rightarrow> string" where
  "joinWith sep [] = []"
| "joinWith sep [s] = s"
| "joinWith sep (s # t # ss) = s @ sep @ joinWith sep (t # ss)"

text \<open>
  \<open>toStr\<close> is the conversion of a template literal and of a computed property key.
  \<open>numberToString\<close> stands for the engine's conversion of a number. An array is joined
  with commas, \<open>null\<close> and \<open>undefined\<close> elements giving the empty string. A parsed
  object has no callable \<open>toString\<close> of its own: without an own property of that name it
  inherits the one that answers \<open>[object Object]\<close>, with one the conversion throws.
\<close>

fun toStr :: "(rat \<Rightarrow> string) \<Rightarrow> jsval \<Rightarrow> jerror + string" where
  "toStr numberToString JUndefined = Inr ''undefined''"
| "toStr numberToString JNull = Inr ''null''"
| "toStr numberToString (JBool b) = Inr (if b then ''true'' else ''false'')"
| "toStr numberToString (JNum r) = Inr (numberToString r)"
| "toStr numberToString (JStr s) = Inr s"
| "toStr numberToString (JArr xs) =
     ebind (sequenceE (map (\<lambda>x. if nullish x then Inr [] else toStr numberToString x) xs))
       (\<lambda>ss. Inr (joinWith '','' ss))"
| "toStr numberToString (JObj kvs) =
     (if ''toString'' \<in> fst ` set kvs then Inl TypeError else Inr ''[object Object]'')"

section \<open>transformUserStory\<close>

text \<open>The configuration object \<open>JIRA_CONFIG\<close>, read from the environment.\<close>

record config =
  baseURL :: string
  email :: string
  apiToken :: string
  projectKey :: string

text \<open>
  The function returns one object literal; its property values are evaluated in the order
  in which they are written, and the first exception ends the call. Each property value is
  given its own definition, a function of the argument \<open>issue\<close>.
\<close>

text \<open>\<open>key: issue.key\<close>\<close>

definition keyOf :: "jsval \<Rightarrow> jerror + jsval" where
  "keyOf issue = getProp issue ''key''"

text \<open>\<open>issue.fields.\<close>\<^emph>\<open>name\<close>\<close>

definition fieldOf :: "jsval \<Rightarrow> string \<Rightarrow> jerror + jsval" where
  "fieldOf issue name = ebind (getProp issue ''fields'') (\<lambda>fields. getProp fields name)"

text \<open>\<open>summary: issue.fields.summary\<close>\<close>

definition summaryOf :: "jsval \<Rightarrow> jerror + jsval" where
  "summaryOf issue = fieldOf issue ''summary''"

text \<open>\<open>d?.content?.[0]?.content?.[0]?.text\<close>\<close>

definition richText :: "jsval \<Rightarrow> jsval" where
  "richText d =
     optProp (optIdx0 (optProp (optIdx0 (optProp d ''content'')) ''content'')) ''text''"

definition placeholder :: string where
  "placeholder = ''No description available''"

text \<open>
  \<open>description: issue.fields.description?.content?.[0]?.content?.[0]?.text ||
     issue.fields.description || 'No description available'\<close>
\<close>

definition descriptionOf :: "jsval \<Rightarrow> jerror + jsval" where
  "descriptionOf issue =
     eor (eor (ebind (fieldOf issue ''description'') (\<lambda>d. Inr (richText d)))
              (fieldOf issue ''description''))
         (Inr (JStr placeholder))"

text \<open>
  \<open>status: { name: issue.fields.status.name,
             category: issue.fields.status.statusCategory.name }\<close>
\<close>

definition statusOf :: "jsval \<Rightarrow> jerror + jsval" where
  "statusOf issue =
     ebind (ebind (fieldOf issue ''status'') (\<lambda>st. getProp st ''name'')) (\<lambda>name.
     ebind (ebind (ebind (fieldOf issue ''status'') (\<lambda>st. getProp st ''statusCategory''))
                  (\<lambda>cat. getProp cat ''name'')) (\<lambda>category.
     Inr (JObj [(''name'', name), (''category'', category)])))"

text \<open>
  \<open>priority: { name: issue.fields.priority?.name || 'None',
               id: issue.fields.priority?.id || null }\<close>
\<close>

definition priorityOf :: "jsval \<Rightarrow> jerror + jsval" where
  "priorityOf issue =
     ebind (eor (ebind (fieldOf issue ''priority'') (\<lambda>p. Inr (optProp p ''name'')))
                (Inr (JStr ''None''))) (\<lambda>name.
     ebind (eor (ebind (fieldOf issue ''priority'') (\<lambda>p. Inr (optProp p ''id'')))
                (Inr JNull)) (\<lambda>ident.
     Inr (JObj [(''name'', name), (''id'', ident)])))"

text \<open>
  \<open>issue.fields.f ? { displayName: issue.fields.f.displayName,
                       emailAddress: issue.fields.f.emailAddress,
                       accountId: issue.fields.f.accountId } : null\<close>,
  the value of \<open>assignee\<close> (\<open>f = assignee\<close>) and of \<open>reporter\<close> (\<open>f = reporter\<close>).
\<close>

definition personOf :: "jsval \<Rightarrow> string \<Rightarrow> jerror + jsval" where
  "personOf issue f =
     ebind (fieldOf issue f) (\<lambda>p.
       if truthy p then
         ebind (ebind (fieldOf issue f) (\<lambda>q. getProp q ''displayName'')) (\<lambda>displayName.
         ebind (ebind (fieldOf issue f) (\<lambda>q. getProp q ''emailAddress'')) (\<lambda>emailAddress.
         ebind (ebind (fieldOf issue f) (\<lambda>q. getProp q ''accountId'')) (\<lambda>accountId.
         Inr (JObj [(''displayName'', displayName), (''emailAddress'', emailAddress),
                    (''accountId'', accountId)]))))
       else Inr JNull)"

text \<open>\<open>x => x.name\<close>, the callback of \<open>components\<close> and of \<open>fixVersions\<close>\<close>

definition nameOf :: "jsval \<Rightarrow> jerror + jsval" where
  "nameOf x = getProp x ''name''"

text \<open>\<open>components: issue.fields.components?.map(comp => comp.name) || []\<close>\<close>

definition componentsOf :: "jsval \<Rightarrow> jerror + jsval" where
  "componentsOf issue =
     eor (ebind (fieldOf issue ''components'') (\<lambda>cs. optMap cs nameOf)) (Inr (JArr []))"

text \<open>\<open>labels: issue.fields.labels || []\<close>\<close>

definition labelsOf :: "jsval \<Rightarrow> jerror + jsval" where
  "labelsOf issue = eor (fieldOf issue ''labels'') (Inr (JArr []))"

text \<open>\<open>fixVersions: issue.fields.fixVersions?.map(version => version.name) || []\<close>\<close>

definition fixVersionsOf :: "jsval \<Rightarrow> jerror + jsval" where
  "fixVersionsOf issue =
     eor (ebind (fieldOf issue ''fixVersions'') (\<lambda>vs. optMap vs nameOf)) (Inr (JArr []))"

text \<open>\<open>storyPoints: issue.fields.customfield_10016 || null\<close>\<close>

definition storyPointsOf :: "jsval \<Rightarrow> jerror + jsval" where
  "storyPointsOf issue = eor (fieldOf issue ''customfield_10016'') (Inr JNull)"

text \<open>
  The callback of \<open>issueLinks\<close>:
  \<open>link => ({ type: link.type.name,
               direction: link.type.inward || link.type.outward,
               linkedIssue: link.inwardIssue?.key || link.outwardIssue?.key })\<close>
\<close>

definition transformLink :: "jsval \<Rightarrow> jerror + jsval" where
  "transformLink link =
     ebind (ebind (getProp link ''type'') (\<lambda>t. getProp t ''name'')) (\<lambda>type_name.
     ebind (eor (ebind (getProp link ''type'') (\<lambda>t. getProp t ''inward''))
                (ebind (getProp link ''type'') (\<lambda>t. getProp t ''outward''))) (\<lambda>direction.
     ebind (eor (ebind (getProp link ''inwardIssue'') (\<lambda>i. Inr (optProp i ''key'')))
                (ebind (getProp link ''outwardIssue'') (\<lambda>i. Inr (optProp i ''key''))))
       (\<lambda>linkedIssue.
     Inr (JObj [(''type'', type_name), (''direction'', direction),
                (''linkedIssue'', linkedIssue)]))))"

text \<open>\<open>issueLinks: issue.fields.issuelinks?.map(link => ...) || []\<close>\<close>

definition issueLinksOf :: "jsval \<Rightarrow> jerror + jsval" where
  "issueLinksOf issue =
     eor (ebind (fieldOf issue ''issuelinks'') (\<lambda>ls. optMap ls transformLink))
         (Inr (JArr []))"

text \<open>\<open>url: `${JIRA_CONFIG.baseURL}/browse/${issue.key}`\<close>\<close>

definition urlOf :: "(rat \<Rightarrow> string) \<Rightarrow> config \<Rightarrow> jsval \<Rightarrow> jerror + jsval" where
  "urlOf numberToString cfg issue =
     ebind (getProp issue ''key'') (\<lambda>k.
     ebind (toStr numberToString k) (\<lambda>s.
     Inr (JStr (baseURL cfg @ ''/browse/'' @ s))))"

definition transformUserStory :: "(rat \<Rightarrow> string) \<Rightarrow> config \<Rightarrow> jsval \<Rightarrow> jerror + jsval" where
  "transformUserStory numberToString cfg issue =
     ebind (keyOf issue) (\<lambda>key.
     ebind (summaryOf issue) (\<lambda>summary.
     ebind (descriptionOf issue) (\<lambda>description.
     ebind (statusOf issue) (\<lambda>status.
     ebind (priorityOf issue) (\<lambda>priority.
     ebind (personOf issue ''assignee'') (\<lambda>assignee.
     ebind (personOf issue ''reporter'') (\<lambda>reporter.
     ebind (fieldOf issue ''created'') (\<lambda>created.
     ebind (fieldOf issue ''updated'') (\<lambda>updated.
     ebind (componentsOf issue) (\<lambda>components.
     ebind (labelsOf issue) (\<lambda>labels.
     ebind (fixVersionsOf issue) (\<lambda>fixVersions.
     ebind (storyPointsOf issue) (\<lambda>storyPoints.
     ebind (issueLinksOf issue) (\<lambda>issueLinks.
     ebind (urlOf numberToString cfg issue) (\<lambda>url.
     Inr (JObj
       [(''key'', key), (''summary'', summary), (''description'', description),
        (''status'', status), (''priority'', priority), (''assignee'', assignee),
        (''reporter'', reporter), (''created'', created), (''updated'', updated),
        (''components'', components), (''labels'', labels),
        (''fixVersions'', fixVersions), (''storyPoints'', storyPoints),
        (''issueLinks'', issueLinks), (''url'', url)]))))))))))))))))"

section \<open>The pipeline: fetchUserStories, saveToJSON, main\<close>

subsection \<open>The outside world\<close>

text \<open>
  The script calls the HTTP client, the file system and the console. The model records
  every such call, in order, as an event; what the outside world answers is read from an
  environment. A path is the list of the segments of an absolute path.
\<close>

type_synonym path = "string list"

text \<open>
  The values that line 196 stores in the accumulator \<open>statusCounts\<close>: a number, or the
  string that \<open>+ 1\<close> makes of a value inherited from \<open>Object.prototype\<close>.
\<close>

datatype tally = Count nat | Text string

text \<open>
  The console messages, one constructor for each \<open>console.log\<close> and \<open>console.error\<close>
  of the script, with the values that the message prints. \<open>MsgStatusLines\<close> stands for
  the lines that the loop over \<open>Object.entries(statusCounts)\<close> prints, one for each own
  property of the accumulator.
\<close>

datatype message =
    MsgStarting
  | MsgProject string
  | MsgJiraUrl string
  | MsgFetching string
  | MsgFound string
  | MsgFetchError "jsval + jerror"
  | MsgTransforming
  | MsgCreatedDir
  | MsgSaved nat path
  | MsgSaveError jerror
  | MsgSummary
  | MsgTotal nat
  | MsgFileSaved path
  | MsgByStatus
  | MsgStatusLines "(string \<times> tally) list"
  | MsgCompleted
  | MsgProcessFailed jerror

text \<open>
  \<open>Get jql maxResults fields\<close> is the request \<open>jiraApi.get('/search/jql', ...)\<close>. The calls
  \<open>fs.mkdirSync\<close> and \<open>fs.writeFileSync\<close> carry their outcome: \<open>None\<close> when the call
  succeeded, the message of the exception otherwise. The text handed to
  \<open>fs.writeFileSync\<close> is recorded as the value it denotes.
\<close>

datatype event =
    Log message
  | LogError message
  | Get string nat string
  | ExistsSync path
  | MkdirSync path "string option"
  | WriteFileSync path jsval "string option"

text \<open>
  The outcome of the request: \<open>Resolved d\<close> is a response whose \<open>data\<close> is \<open>d\<close>;
  \<open>Rejected d m\<close> is a rejection whose error has \<open>response?.data = d\<close> and
  \<open>message = m\<close>.
\<close>

datatype http_outcome = Resolved jsval | Rejected jsval string

text \<open>
  \<open>dirname\<close> is \<open>__dirname\<close>; \<open>dataDirExists\<close> is the answer of \<open>fs.existsSync(dataDir)\<close>;
  \<open>mkdirFailure\<close> and \<open>writeFailure\<close> are the exceptions of \<open>fs.mkdirSync\<close> and
  \<open>fs.writeFileSync\<close>, if any; \<open>now\<close> is the value of \<open>new Date().toISOString()\<close> in
  saveToJSON.
\<close>

record env =
  dirname :: path
  response :: http_outcome
  dataDirExists :: bool
  mkdirFailure :: "string option"
  writeFailure :: "string option"
  now :: string

subsection \<open>fetchUserStories\<close>

text \<open>
  \<open>`project = ${projectKey} AND issuetype = Story ORDER BY created DESC`\<close>
\<close>

definition jql :: "string \<Rightarrow> string" where
  "jql project = ''project = '' @ project @ '' AND issuetype = Story ORDER BY created DESC''"

definition requestedFields :: "string list" where
  "requestedFields =
     [''key'', ''summary'', ''description'', ''status'', ''priority'', ''assignee'',
      ''reporter'', ''created'', ''updated'', ''components'', ''labels'', ''fixVersions'',
      ''customfield_10016'', ''issuelinks'']"

text \<open>
  \<open>error.response?.data || error.message\<close>, the value printed by the \<open>catch\<close> block:
  the response data on the left, or the message of the error, which the error itself
  stands for, on the right.
\<close>

fun fetchDiagnostic :: "jerror \<Rightarrow> jsval + jerror" where
  "fetchDiagnostic (RequestError d m) = (if truthy d then Inl d else Inr (RequestError d m))"
| "fetchDiagnostic e = Inr e"

text \<open>
  The function returns \<open>response.data.issues\<close>. Every exception in the \<open>try\<close> block,
  that of the request as well as a failing read or conversion of
  \<open>response.data.total\<close> in the message of line 77, is printed and thrown again.
\<close>

definition fetchUserStories ::
  "(rat \<Rightarrow> string) \<Rightarrow> env \<Rightarrow> string \<Rightarrow> nat \<Rightarrow> (jerror + jsval) \<times> event list" where
  "fetchUserStories numberToString env project maxResults =
     (let started = [Log (MsgFetching project),
                     Get (jql project) maxResults (joinWith '','' requestedFields)] in
      case response env of
        Rejected d m \<Rightarrow>
          (Inl (RequestError d m),
           started @ [LogError (MsgFetchError (fetchDiagnostic (RequestError d m)))])
      | Resolved d \<Rightarrow>
          (case ebind (getProp d ''total'') (toStr numberToString) of
             Inl e \<Rightarrow> (Inl e, started @ [LogError (MsgFetchError (fetchDiagnostic e))])
           | Inr totalText \<Rightarrow>
               (case getProp d ''issues'' of
                  Inl e \<Rightarrow>
                    (Inl e, started @ [Log (MsgFound totalText),
                                       LogError (MsgFetchError (fetchDiagnostic e))])
                | Inr issues \<Rightarrow> (Inr issues, started @ [Log (MsgFound totalText)]))))"

subsection \<open>saveToJSON\<close>

text \<open>
  \<open>JSON.stringify\<close> followed by a parse: the value that the written text denotes. A
  property whose value is \<open>undefined\<close> is left out, an \<open>undefined\<close> array element is
  written as \<open>null\<close>. A number is written as itself: the numbers here are finite, and
  an infinite one, which \<open>JSON.stringify\<close> writes as \<open>null\<close>, has no value in \<open>jsval\<close>.
\<close>

fun jsonValue :: "jsval \<Rightarrow> jsval" where
  "jsonValue (JArr xs) = JArr (map (\<lambda>x. if x = JUndefined then JNull else jsonValue x) xs)"
| "jsonValue (JObj kvs) =
     JObj (map (\<lambda>kv. (fst kv, jsonValue (snd kv))) (filter (\<lambda>kv. snd kv \<noteq> JUndefined) kvs))"
| "jsonValue v = v"

text \<open>
  \<open>path.join(__dirname, '..', 'data')\<close> drops the last segment of \<open>__dirname\<close> and
  appends \<open>data\<close>; \<open>filename\<close> is one segment. \<open>userStories\<close> is an array.
\<close>

definition saveToJSON ::
  "config \<Rightarrow> env \<Rightarrow> jsval list \<Rightarrow> string \<Rightarrow> (jerror + path) \<times> event list" where
  "saveToJSON cfg env userStories filename =
     (let dataDir = butlast (dirname env) @ [''data''];
          checked = [ExistsSync dataDir];
          filePath = dataDir @ [filename];
          output = JObj
            [(''metadata'', JObj
                [(''projectKey'', JStr (projectKey cfg)),
                 (''totalStories'', JNum (of_nat (length userStories))),
                 (''fetchedAt'', JStr (now env)),
                 (''jiraBaseUrl'', JStr (baseURL cfg))]),
             (''userStories'', JArr userStories)];
          written = (\<lambda>t. case writeFailure env of
              Some m \<Rightarrow>
                (Inl (FsError m),
                 t @ [WriteFileSync filePath (jsonValue output) (Some m),
                      LogError (MsgSaveError (FsError m))])
            | None \<Rightarrow>
                (Inr filePath,
                 t @ [WriteFileSync filePath (jsonValue output) None,
                      Log (MsgSaved (length userStories) filePath)]))
      in if dataDirExists env then written checked
         else case mkdirFailure env of
                Some m \<Rightarrow>
                  (Inl (FsError m),
                   checked @ [MkdirSync dataDir (Some m), LogError (MsgSaveError (FsError m))])
              | None \<Rightarrow> written (checked @ [MkdirSync dataDir None, Log MsgCreatedDir]))"

subsection \<open>main\<close>

text \<open>
  \<open>rawUserStories.map(transformUserStory)\<close>: on anything but an array the call throws.
\<close>

definition transformAll :: "(rat \<Rightarrow> string) \<Rightarrow> config \<Rightarrow> jsval \<Rightarrow> jerror + jsval list" where
  "transformAll numberToString cfg rawUserStories =
     (case rawUserStories of
        JArr xs \<Rightarrow> mapE (transformUserStory numberToString cfg) xs
      | _ \<Rightarrow> Inl TypeError)"

text \<open>
  The accumulator of line 195 is an object literal \<open>{}\<close>, so a read of a name that it
  does not own finds the properties of \<open>Object.prototype\<close>.
\<close>

definition objectPrototypeNames :: "string list" where
  "objectPrototypeNames =
     [''constructor'', ''__defineGetter__'', ''__defineSetter__'', ''hasOwnProperty'',
      ''__lookupGetter__'', ''__lookupSetter__'', ''isPrototypeOf'', ''propertyIsEnumerable'',
      ''toString'', ''valueOf'', ''__proto__'', ''toLocaleString'']"

text \<open>
  What \<open>+\<close> makes of an inherited value: the source text of a built-in function, and
  \<open>[object Object]\<close> for the prototype object that \<open>__proto__\<close> answers.
\<close>

definition inheritedText :: "string \<Rightarrow> string" where
  "inheritedText k =
     (if k = ''__proto__'' then ''[object Object]''
      else ''function '' @ (if k = ''constructor'' then ''Object'' else k) @ ''() { [native code] }'')"

text \<open>
  \<open>acc[k] = (acc[k] || 0) + 1\<close>. An assignment to \<open>__proto__\<close> of a value that is not an
  object is ignored; every other assignment creates or updates an own property. The
  list keeps the names in the order of their first occurrence; \<open>Object.entries\<close> would
  list the names that are array indices first, and nothing below depends on the order.
\<close>

definition bumpCount :: "(string \<times> tally) list \<Rightarrow> string \<Rightarrow> (string \<times> tally) list" where
  "bumpCount acc k =
     (case map_of acc k of
        Some (Count c) \<Rightarrow> AList.update k (Count (c + 1)) acc
      | Some (Text s) \<Rightarrow> AList.update k (if s = [] then Count 1 else Text (s @ ''1'')) acc
      | None \<Rightarrow>
          if k = ''__proto__'' then acc
          else if k \<in> set objectPrototypeNames
            then AList.update k (Text (inheritedText k @ ''1'')) acc
          else AList.update k (Count 1) acc)"

text \<open>
  The callback of \<open>reduce\<close>, with \<open>k\<close> the property key made of \<open>story.status.name\<close>.
\<close>

definition countStatus ::
  "(rat \<Rightarrow> string) \<Rightarrow> (string \<times> tally) list \<Rightarrow> jsval \<Rightarrow> jerror + (string \<times> tally) list" where
  "countStatus numberToString acc story =
     ebind (ebind (getProp story ''status'') (\<lambda>st. getProp st ''name'')) (\<lambda>name.
     ebind (toStr numberToString name) (\<lambda>k. Inr (bumpCount acc k)))"

fun reduceE :: "('b \<Rightarrow> 'a \<Rightarrow> jerror + 'b) \<Rightarrow> 'b \<Rightarrow> 'a list \<Rightarrow> jerror + 'b" where
  "reduceE f acc [] = Inr acc"
| "reduceE f acc (x # xs) = ebind (f acc x) (\<lambda>acc'. reduceE f acc' xs)"

definition statusCounts ::
  "(rat \<Rightarrow> string) \<Rightarrow> jsval list \<Rightarrow> jerror + (string \<times> tally) list" where
  "statusCounts numberToString stories = reduceE (countStatus numberToString) [] stories"

text \<open>
  A run of \<open>main\<close> ends with an exit code and leaves the trace of its events.
\<close>

record run =
  exitCode :: nat
  trace :: "event list"

text \<open>
  The \<open>catch\<close> block of \<open>main\<close>: \<open>console.error\<close>, then \<open>process.exit(1)\<close>.
\<close>

definition failed :: "event list \<Rightarrow> jerror \<Rightarrow> run" where
  "failed t e = \<lparr>exitCode = 1, trace = t @ [LogError (MsgProcessFailed e)]\<rparr>"

text \<open>
  The three lines that \<open>main\<close> prints first.
\<close>

definition prelude :: "config \<Rightarrow> event list" where
  "prelude cfg = [Log MsgStarting, Log (MsgProject (projectKey cfg)), Log (MsgJiraUrl (baseURL cfg))]"

text \<open>
  The stages run in sequence inside one \<open>try\<close> block; the first exception ends the run
  in the \<open>catch\<close> block. The variable \<open>timestamp\<close> of line 184 is never read. A run that
  leaves the \<open>try\<close> block normally ends the process with exit code 0.
\<close>

definition main :: "(rat \<Rightarrow> string) \<Rightarrow> config \<Rightarrow> env \<Rightarrow> run" where
  "main numberToString cfg env =
     (let t0 = prelude cfg;
          (fetched, t1) = fetchUserStories numberToString env (projectKey cfg) 100
      in case fetched of
           Inl e \<Rightarrow> failed (t0 @ t1) e
         | Inr rawUserStories \<Rightarrow>
             (case transformAll numberToString cfg rawUserStories of
                Inl e \<Rightarrow> failed (t0 @ t1 @ [Log MsgTransforming]) e
              | Inr transformedUserStories \<Rightarrow>
                  (let (saved, t2) =
                         saveToJSON cfg env transformedUserStories ''jira-user-story.json''
                   in case saved of
                        Inl e \<Rightarrow> failed (t0 @ t1 @ [Log MsgTransforming] @ t2) e
                      | Inr savedPath \<Rightarrow>
                          (let t3 = [Log MsgSummary,
                                     Log (MsgTotal (length transformedUserStories)),
                                     Log (MsgFileSaved savedPath),
                                     Log (MsgProject (projectKey cfg))]
                           in case statusCounts numberToString transformedUserStories of
                                Inl e \<Rightarrow> failed (t0 @ t1 @ [Log MsgTransforming] @ t2 @ t3) e
                              | Inr counts \<Rightarrow>
                                  \<lparr>exitCode = 0,
                                   trace = t0 @ t1 @ [Log MsgTransforming] @ t2 @ t3 @
                                     [Log MsgByStatus, Log (MsgStatusLines counts),
                                      Log MsgCompleted]\<rparr>))))"

text \<open>
  The file that \<open>main\<close> writes.
\<close>

definition outputPath :: "env \<Rightarrow> path" where
  "outputPath env = butlast (dirname env) @ [''data'', ''jira-user-story.json'']"

section \<open>Observations on values and traces\<close>

fun isStr :: "jsval \<Rightarrow> bool" where
  "isStr (JStr s) = True"
| "isStr v = False"

fun isObj :: "jsval \<Rightarrow> bool" where
  "isObj (JObj kvs) = True"
| "isObj v = False"

fun isArr :: "jsval \<Rightarrow> bool" where
  "isArr (JArr xs) = True"
| "isArr v = False"

fun isPrimitive :: "jsval \<Rightarrow> bool" where
  "isPrimitive (JArr xs) = False"
| "isPrimitive (JObj kvs) = False"
| "isPrimitive v = True"

text \<open>
  The files written by a run: the successful calls of \<open>fs.writeFileSync\<close>.
\<close>

fun writtenFiles :: "event list \<Rightarrow> (path \<times> jsval) list" where
  "writtenFiles [] = []"
| "writtenFiles (WriteFileSync p doc None # es) = (p, doc) # writtenFiles es"
| "writtenFiles (e # es) = writtenFiles es"

text \<open>
  The calls that change the file system.
\<close>

fun mutatesFiles :: "event \<Rightarrow> bool" where
  "mutatesFiles (MkdirSync p r) = True"
| "mutatesFiles (WriteFileSync p doc r) = True"
| "mutatesFiles e = False"

text \<open>
  The number that an accumulator holds for a name, 0 when it holds none.
\<close>

definition tallyAt :: "(string \<times> tally) list \<Rightarrow> string \<Rightarrow> nat" where
  "tallyAt acc k = (case map_of acc k of Some (Count c) \<Rightarrow> c | _ \<Rightarrow> 0)"

text \<open>
  The shape of a record on which transformUserStory returns: \<open>issue.fields\<close>, its
  \<open>status\<close> and the \<open>statusCategory\<close> of the status are present, \<open>components\<close> and
  \<open>fixVersions\<close> are absent or arrays without \<open>null\<close> entries, \<open>issuelinks\<close> is absent or
  an array of links that have a \<open>type\<close>, and \<open>issue.key\<close> converts to a string.
\<close>

definition entriesPresent :: "jsval \<Rightarrow> bool" where
  "entriesPresent v =
     (nullish v \<or> (case v of JArr xs \<Rightarrow> list_all (\<lambda>x. \<not> nullish x) xs | _ \<Rightarrow> False))"

definition linksTyped :: "jsval \<Rightarrow> bool" where
  "linksTyped v =
     (nullish v \<or>
      (case v of
         JArr xs \<Rightarrow> list_all (\<lambda>l. \<not> nullish l \<and> \<not> nullish (lookupProp l ''type'')) xs
       | _ \<Rightarrow> False))"

definition returnsOn :: "(rat \<Rightarrow> string) \<Rightarrow> jsval \<Rightarrow> bool" where
  "returnsOn numberToString issue =
     (let fs = lookupProp issue ''fields''; st = lookupProp fs ''status'' in
        \<not> nullish issue \<and> \<not> nullish fs \<and>
        \<not> nullish st \<and> \<not> nullish (lookupProp st ''statusCategory'') \<and>
        entriesPresent (lookupProp fs ''components'') \<and>
        entriesPresent (lookupProp fs ''fixVersions'') \<and>
        linksTyped (lookupProp fs ''issuelinks'') \<and>
        \<not> isl (toStr numberToString (lookupProp issue ''key'')))"

text \<open>
  The structural guarantee that the specification ascribes to the remote service
  (identifier, summary and status present), read generously: the key and the summary are
  strings, the status is an object with a name and a named category.
\<close>

definition structuralGuarantee :: "jsval \<Rightarrow> bool" where
  "structuralGuarantee issue =
     (let fs = lookupProp issue ''fields''; st = lookupProp fs ''status'' in
        isStr (lookupProp issue ''key'') \<and> isObj fs \<and> isStr (lookupProp fs ''summary'') \<and>
        isObj st \<and> isStr (lookupProp st ''name'') \<and>
        isObj (lookupProp st ''statusCategory'') \<and>
        isStr (lookupProp (lookupProp st ''statusCategory'') ''name''))"

section \<open>Example inputs\<close>

text \<open>
  A stand-in for the engine's number conversion in the examples below, none of which
  converts a number to a string.
\<close>

definition noNumberText :: "rat \<Rightarrow> string" where
  "noNumberText r = []"

definition exampleConfig :: config where
  "exampleConfig = \<lparr>baseURL = ''https://jira.example'', email = ''dev@jira.example'',
     apiToken = ''secret'', projectKey = ''PROJ''\<rparr>"

definition exampleStatus :: jsval where
  "exampleStatus = JObj [(''name'', JStr ''Open''),
     (''statusCategory'', JObj [(''name'', JStr ''To Do'')])]"

text \<open>
  A story estimated at zero points, and its normalized record.
\<close>

definition zeroPointsIssue :: jsval where
  "zeroPointsIssue = JObj [(''key'', JStr ''PROJ-1''),
     (''fields'', JObj [(''summary'', JStr ''S''), (''status'', exampleStatus),
        (''customfield_10016'', JNum 0)])]"

definition zeroPointsStory :: jsval where
  "zeroPointsStory = JObj
       [(''key'', JStr ''PROJ-1''), (''summary'', JStr ''S''),
        (''description'', JStr ''No description available''),
        (''status'', JObj [(''name'', JStr ''Open''), (''category'', JStr ''To Do'')]),
        (''priority'', JObj [(''name'', JStr ''None''), (''id'', JNull)]),
        (''assignee'', JNull), (''reporter'', JNull),
        (''created'', JUndefined), (''updated'', JUndefined),
        (''components'', JArr []), (''labels'', JArr []),
        (''fixVersions'', JArr []), (''storyPoints'', JNull),
        (''issueLinks'', JArr []),
        (''url'', JStr ''https://jira.example/browse/PROJ-1'')]"

text \<open>
  The three descriptions of the specification: a rich-text body, a plain string, none
  (\<open>zeroPointsIssue\<close> has none).
\<close>

definition richTextIssue :: jsval where
  "richTextIssue = JObj [(''key'', JStr ''PROJ-2''),
     (''fields'', JObj [(''summary'', JStr ''S''), (''status'', exampleStatus),
        (''description'',
           JObj [(''content'', JArr [JObj [(''content'', JArr [JObj [(''text'', JStr ''A'')]])]])])])]"

definition plainTextIssue :: jsval where
  "plainTextIssue = JObj [(''key'', JStr ''PROJ-3''),
     (''fields'', JObj [(''summary'', JStr ''S''), (''status'', exampleStatus),
        (''description'', JStr ''B'')])]"

text \<open>
  A rich-text body whose first paragraph starts with a line break, not with text.
\<close>

definition breakFirstBody :: jsval where
  "breakFirstBody = JObj [(''type'', JStr ''doc''),
     (''content'', JArr [JObj [(''type'', JStr ''paragraph''),
        (''content'', JArr [JObj [(''type'', JStr ''hardBreak'')],
                            JObj [(''type'', JStr ''text''), (''text'', JStr ''A'')]])]])]"

definition breakFirstIssue :: jsval where
  "breakFirstIssue = JObj [(''key'', JStr ''PROJ-4''),
     (''fields'', JObj [(''summary'', JStr ''S''), (''status'', exampleStatus),
        (''description'', breakFirstBody)])]"

text \<open>
  Two links of type Blocks. In the first the record blocks PROJ-9, which the link names
  as its outward issue; in the second the record is blocked by PROJ-8, the inward issue.
\<close>

definition blocksLink :: jsval where
  "blocksLink = JObj
     [(''type'', JObj [(''name'', JStr ''Blocks''), (''inward'', JStr ''is blocked by''),
                       (''outward'', JStr ''blocks'')]),
      (''outwardIssue'', JObj [(''key'', JStr ''PROJ-9'')])]"

definition blockedByLink :: jsval where
  "blockedByLink = JObj
     [(''type'', JObj [(''name'', JStr ''Blocks''), (''inward'', JStr ''is blocked by''),
                       (''outward'', JStr ''blocks'')]),
      (''inwardIssue'', JObj [(''key'', JStr ''PROJ-8'')])]"

text \<open>
  A record with components, a fix version, both links, and an assignee whose e-mail
  address the remote service does not disclose; its normalized record.
\<close>

definition linkedIssue :: jsval where
  "linkedIssue = JObj [(''key'', JStr ''PROJ-5''),
     (''fields'', JObj [(''summary'', JStr ''S''), (''status'', exampleStatus),
        (''components'', JArr [JObj [(''name'', JStr ''api'')], JObj [(''name'', JStr ''ui'')]]),
        (''fixVersions'', JArr [JObj [(''name'', JStr ''1.0'')]]),
        (''assignee'', JObj [(''displayName'', JStr ''Ann''), (''accountId'', JStr ''a1'')]),
        (''issuelinks'', JArr [blockedByLink, blocksLink])])]"

definition linkedStory :: jsval where
  "linkedStory = JObj
       [(''key'', JStr ''PROJ-5''), (''summary'', JStr ''S''),
        (''description'', JStr ''No description available''),
        (''status'', JObj [(''name'', JStr ''Open''), (''category'', JStr ''To Do'')]),
        (''priority'', JObj [(''name'', JStr ''None''), (''id'', JNull)]),
        (''assignee'', JObj [(''displayName'', JStr ''Ann''), (''emailAddress'', JUndefined),
                             (''accountId'', JStr ''a1'')]),
        (''reporter'', JNull),
        (''created'', JUndefined), (''updated'', JUndefined),
        (''components'', JArr [JStr ''api'', JStr ''ui'']), (''labels'', JArr []),
        (''fixVersions'', JArr [JStr ''1.0'']), (''storyPoints'', JNull),
        (''issueLinks'', JArr
           [JObj [(''type'', JStr ''Blocks''), (''direction'', JStr ''is blocked by''),
                  (''linkedIssue'', JStr ''PROJ-8'')],
            JObj [(''type'', JStr ''Blocks''), (''direction'', JStr ''is blocked by''),
                  (''linkedIssue'', JStr ''PROJ-9'')]]),
        (''url'', JStr ''https://jira.example/browse/PROJ-5'')]"

definition issueWithStatus :: "string \<Rightarrow> string \<Rightarrow> jsval" where
  "issueWithStatus k name = JObj [(''key'', JStr k),
     (''fields'', JObj [(''summary'', JStr ''S''),
        (''status'', JObj [(''name'', JStr name),
                           (''statusCategory'', JObj [(''name'', JStr ''To Do'')])])])]"

text \<open>
  A run in which the request answers two stories and every call succeeds, and a run in
  which the request is rejected.
\<close>

definition exampleEnv :: env where
  "exampleEnv = \<lparr>dirname = [''home'', ''app'', ''src''],
     response = Resolved (JObj [(''total'', JStr ''2''),
        (''issues'', JArr [issueWithStatus ''PROJ-1'' ''Open'', issueWithStatus ''PROJ-2'' ''Done''])]),
     dataDirExists = False, mkdirFailure = None, writeFailure = None,
     now = ''2024-05-01T10:00:00.000Z''\<rparr>"

definition failingEnv :: env where
  "failingEnv = exampleEnv\<lparr>response := Rejected JUndefined ''timeout''\<rparr>"

text \<open>
  A record whose status name is not a string but an object with a property \<open>toString\<close>,
  its normalized record, and a run in which the request answers this record and every
  call succeeds.
\<close>

definition oddStatusIssue :: jsval where
  "oddStatusIssue = JObj [(''key'', JStr ''PROJ-7''),
     (''fields'', JObj [(''summary'', JStr ''S''),
        (''status'', JObj [(''name'', JObj [(''toString'', JStr ''x'')]),
                           (''statusCategory'', JObj [(''name'', JStr ''To Do'')])])])]"

definition oddStatusStory :: jsval where
  "oddStatusStory = JObj
       [(''key'', JStr ''PROJ-7''), (''summary'', JStr ''S''),
        (''description'', JStr ''No description available''),
        (''status'', JObj [(''name'', JObj [(''toString'', JStr ''x'')]),
                           (''category'', JStr ''To Do'')]),
        (''priority'', JObj [(''name'', JStr ''None''), (''id'', JNull)]),
        (''assignee'', JNull), (''reporter'', JNull),
        (''created'', JUndefined), (''updated'', JUndefined),
        (''components'', JArr []), (''labels'', JArr []),
        (''fixVersions'', JArr []), (''storyPoints'', JNull),
        (''issueLinks'', JArr []),
        (''url'', JStr ''https://jira.example/browse/PROJ-7'')]"

definition oddStatusEnv :: env where
  "oddStatusEnv = exampleEnv\<lparr>response :=
     Resolved (JObj [(''total'', JStr ''1''), (''issues'', JArr [oddStatusIssue])])\<rparr>"

section \<open>Properties of the sequencing operators\<close>

lemma ebind_Inr [simp]: "ebind (Inr x) f = f x"
  by (simp add: ebind_def)

lemma ebind_Inl [simp]: "ebind (Inl e) f = Inl e"
  by (simp add: ebind_def)

lemma ebind_eq_Inr: "ebind m f = Inr y \<longleftrightarrow> (\<exists>x. m = Inr x \<and> f x = Inr y)"
  by (cases m) simp_all

lemma getProp_eq_Inr: "getProp v k = Inr x \<longleftrightarrow> \<not> nullish v \<and> x = lookupProp v k"
  by (auto simp: getProp_def)

lemma truthy_not_nullish: "truthy v \<Longrightarrow> \<not> nullish v"
  by (cases v) simp_all

lemma fieldOf_eq_Inr:
  "fieldOf issue name = Inr x \<longleftrightarrow>
     \<not> nullish issue \<and> \<not> nullish (lookupProp issue ''fields'') \<and>
     x = lookupProp (lookupProp issue ''fields'') name"
  by (auto simp: fieldOf_def ebind_eq_Inr getProp_eq_Inr)

lemma eor_eq_Inr:
  "eor a b = Inr y \<longleftrightarrow> (\<exists>x. a = Inr x \<and> (if truthy x then y = x else b = Inr y))"
  by (cases a) (auto simp: eor_def)

lemma mapE_Nil [simp]: "mapE f [] = Inr []"
  by (simp add: mapE_def)

lemma mapE_Cons [simp]:
  "mapE f (x # xs) = ebind (f x) (\<lambda>y. ebind (mapE f xs) (\<lambda>ys. Inr (y # ys)))"
  by (simp add: mapE_def)

lemma mapE_eq_Inr: "mapE f xs = Inr ys \<longleftrightarrow> list_all2 (\<lambda>x y. f x = Inr y) xs ys"
proof (induction xs arbitrary: ys)
  case Nil
  show ?case by auto
next
  case (Cons x xs)
  show ?case
    by (cases ys) (auto simp: ebind_eq_Inr Cons.IH)
qed

lemma mapE_members:
  "mapE f xs = Inr ys \<Longrightarrow> y \<in> set ys \<Longrightarrow> \<exists>x \<in> set xs. f x = Inr y"
  unfolding mapE_eq_Inr by (induction xs ys rule: list_all2_induct) auto

lemma mapE_length: "mapE f xs = Inr ys \<Longrightarrow> length ys = length xs"
  unfolding mapE_eq_Inr by (simp add: list_all2_lengthD)

lemma mapE_returns:
  "(\<exists>ys. mapE f xs = Inr ys) \<longleftrightarrow> list_all (\<lambda>x. \<exists>y. f x = Inr y) xs"
proof (induction xs)
  case Nil
  show ?case by simp
next
  case (Cons x xs)
  have "(\<exists>ys. mapE f (x # xs) = Inr ys) \<longleftrightarrow> (\<exists>y. f x = Inr y) \<and> (\<exists>ys. mapE f xs = Inr ys)"
    by (auto simp: ebind_eq_Inr)
  then show ?case by (simp add: Cons.IH)
qed

lemma reduceE_returns:
  assumes "\<And>acc x. x \<in> set xs \<Longrightarrow> \<exists>acc'. f acc x = Inr acc'"
  shows "\<exists>r. reduceE f acc xs = Inr r"
  using assms
proof (induction xs arbitrary: acc)
  case Nil
  show ?case by simp
next
  case (Cons x xs)
  obtain acc' where step: "f acc x = Inr acc'"
    using Cons.prems [of x acc] by auto
  have "\<exists>r. reduceE f acc' xs = Inr r"
    by (rule Cons.IH) (simp add: Cons.prems)
  with step show ?case by simp
qed

lemma toStr_primitive: "isPrimitive v \<Longrightarrow> \<not> isl (toStr n v)"
  by (cases v) simp_all

lemma toStr_returns: "(\<exists>s. toStr n v = Inr s) \<longleftrightarrow> \<not> isl (toStr n v)"
  by (cases "toStr n v") simp_all

section \<open>The properties of the returned object, one by one\<close>

lemma nameOf_eq_Inr: "nameOf x = Inr y \<longleftrightarrow> \<not> nullish x \<and> y = lookupProp x ''name''"
  by (simp add: nameOf_def getProp_eq_Inr)

lemma mapE_nameOf:
  "mapE nameOf xs = Inr ys \<longleftrightarrow>
     list_all (\<lambda>x. \<not> nullish x) xs \<and> ys = map (\<lambda>x. lookupProp x ''name'') xs"
proof (induction xs arbitrary: ys)
  case Nil
  show ?case by auto
next
  case (Cons x xs)
  show ?case
    by (auto simp: ebind_eq_Inr Cons.IH nameOf_eq_Inr)
qed

lemma optMap_eq_Inr:
  "optMap v f = Inr r \<longleftrightarrow>
     (nullish v \<and> r = JUndefined) \<or> (\<exists>xs ys. v = JArr xs \<and> mapE f xs = Inr ys \<and> r = JArr ys)"
  by (cases v) (auto simp: optMap_def ebind_eq_Inr)

lemma mapped_or_empty:
  "eor (ebind (fieldOf issue name) (\<lambda>v. optMap v f)) (Inr (JArr [])) = Inr r \<longleftrightarrow>
     \<not> nullish issue \<and> \<not> nullish (lookupProp issue ''fields'') \<and>
     (let v = lookupProp (lookupProp issue ''fields'') name in
        (nullish v \<and> r = JArr []) \<or>
        (\<exists>xs ys. v = JArr xs \<and> mapE f xs = Inr ys \<and> r = JArr ys))"
  by (auto simp: eor_eq_Inr ebind_eq_Inr fieldOf_eq_Inr optMap_eq_Inr Let_def)

lemma transformLink_eq_Inr:
  "transformLink link = Inr r \<longleftrightarrow>
     \<not> nullish link \<and> \<not> nullish (lookupProp link ''type'') \<and>
     r = JObj
       [(''type'', lookupProp (lookupProp link ''type'') ''name''),
        (''direction'',
           if truthy (lookupProp (lookupProp link ''type'') ''inward'')
           then lookupProp (lookupProp link ''type'') ''inward''
           else lookupProp (lookupProp link ''type'') ''outward''),
        (''linkedIssue'',
           if truthy (optProp (lookupProp link ''inwardIssue'') ''key'')
           then optProp (lookupProp link ''inwardIssue'') ''key''
           else optProp (lookupProp link ''outwardIssue'') ''key'')]"
  by (auto simp: transformLink_def ebind_eq_Inr eor_eq_Inr getProp_eq_Inr)

lemma descriptionOf_eq_Inr:
  "descriptionOf issue = Inr r \<longleftrightarrow>
     \<not> nullish issue \<and> \<not> nullish (lookupProp issue ''fields'') \<and>
     (let d = lookupProp (lookupProp issue ''fields'') ''description'' in
        r = (if truthy (richText d) then richText d
             else if truthy d then d else JStr placeholder))"
  by (auto simp: descriptionOf_def eor_eq_Inr ebind_eq_Inr fieldOf_eq_Inr Let_def)

lemma statusOf_eq_Inr:
  "statusOf issue = Inr r \<longleftrightarrow>
     \<not> nullish issue \<and> \<not> nullish (lookupProp issue ''fields'') \<and>
     (let st = lookupProp (lookupProp issue ''fields'') ''status'' in
        \<not> nullish st \<and> \<not> nullish (lookupProp st ''statusCategory'') \<and>
        r = JObj [(''name'', lookupProp st ''name''),
                  (''category'', lookupProp (lookupProp st ''statusCategory'') ''name'')])"
  by (auto simp: statusOf_def ebind_eq_Inr fieldOf_eq_Inr getProp_eq_Inr Let_def)

lemma priorityOf_eq_Inr:
  "priorityOf issue = Inr r \<longleftrightarrow>
     \<not> nullish issue \<and> \<not> nullish (lookupProp issue ''fields'') \<and>
     (let p = lookupProp (lookupProp issue ''fields'') ''priority'' in
        r = JObj [(''name'', if truthy (optProp p ''name'') then optProp p ''name'' else JStr ''None''),
                  (''id'', if truthy (optProp p ''id'') then optProp p ''id'' else JNull)])"
  by (auto simp: priorityOf_def ebind_eq_Inr eor_eq_Inr fieldOf_eq_Inr Let_def)

lemma personOf_eq_Inr:
  "personOf issue f = Inr r \<longleftrightarrow>
     \<not> nullish issue \<and> \<not> nullish (lookupProp issue ''fields'') \<and>
     (let p = lookupProp (lookupProp issue ''fields'') f in
        r = (if truthy p
             then JObj [(''displayName'', lookupProp p ''displayName''),
                        (''emailAddress'', lookupProp p ''emailAddress''),
                        (''accountId'', lookupProp p ''accountId'')]
             else JNull))"
  by (auto simp: personOf_def ebind_eq_Inr fieldOf_eq_Inr getProp_eq_Inr Let_def
      dest: truthy_not_nullish)

lemma or_default_eq_Inr:
  "eor (fieldOf issue name) (Inr dflt) = Inr r \<longleftrightarrow>
     \<not> nullish issue \<and> \<not> nullish (lookupProp issue ''fields'') \<and>
     (let v = lookupProp (lookupProp issue ''fields'') name in
        r = (if truthy v then v else dflt))"
  by (auto simp: eor_eq_Inr fieldOf_eq_Inr Let_def)

lemma urlOf_eq_Inr:
  "urlOf n cfg issue = Inr r \<longleftrightarrow>
     \<not> nullish issue \<and>
     (\<exists>s. toStr n (lookupProp issue ''key'') = Inr s \<and> r = JStr (baseURL cfg @ ''/browse/'' @ s))"
  by (auto simp: urlOf_def ebind_eq_Inr getProp_eq_Inr)

lemma mapped_or_empty_returns:
  "(\<exists>r. eor (ebind (fieldOf issue name) (\<lambda>v. optMap v f)) (Inr (JArr [])) = Inr r) \<longleftrightarrow>
     \<not> nullish issue \<and> \<not> nullish (lookupProp issue ''fields'') \<and>
     (let v = lookupProp (lookupProp issue ''fields'') name in
        nullish v \<or> (case v of JArr xs \<Rightarrow> list_all (\<lambda>x. \<exists>y. f x = Inr y) xs | _ \<Rightarrow> False))"
proof -
  have "(\<exists>r. eor (ebind (fieldOf issue name) (\<lambda>v. optMap v f)) (Inr (JArr [])) = Inr r) \<longleftrightarrow>
     \<not> nullish issue \<and> \<not> nullish (lookupProp issue ''fields'') \<and>
     (let v = lookupProp (lookupProp issue ''fields'') name in
        nullish v \<or> (\<exists>xs. v = JArr xs \<and> (\<exists>ys. mapE f xs = Inr ys)))"
    unfolding mapped_or_empty Let_def by blast
  also have "\<dots> \<longleftrightarrow> \<not> nullish issue \<and> \<not> nullish (lookupProp issue ''fields'') \<and>
     (let v = lookupProp (lookupProp issue ''fields'') name in
        nullish v \<or> (case v of JArr xs \<Rightarrow> list_all (\<lambda>x. \<exists>y. f x = Inr y) xs | _ \<Rightarrow> False))"
    unfolding mapE_returns Let_def
    by (cases "lookupProp (lookupProp issue ''fields'') name") simp_all
  finally show ?thesis .
qed

lemma nameOf_returns: "(\<exists>y. nameOf x = Inr y) \<longleftrightarrow> \<not> nullish x"
  by (simp add: nameOf_eq_Inr)

lemma transformLink_returns:
  "(\<exists>y. transformLink l = Inr y) \<longleftrightarrow> \<not> nullish l \<and> \<not> nullish (lookupProp l ''type'')"
  by (simp add: transformLink_eq_Inr)

section \<open>The object returned by transformUserStory\<close>

lemma transformUserStory_eq_Inr:
  "transformUserStory n cfg issue = Inr out \<longleftrightarrow>
   (\<exists>key summary description status priority assignee reporter created updated
      components labels fixVersions storyPoints issueLinks url.
      keyOf issue = Inr key \<and> summaryOf issue = Inr summary \<and>
      descriptionOf issue = Inr description \<and> statusOf issue = Inr status \<and>
      priorityOf issue = Inr priority \<and> personOf issue ''assignee'' = Inr assignee \<and>
      personOf issue ''reporter'' = Inr reporter \<and> fieldOf issue ''created'' = Inr created \<and>
      fieldOf issue ''updated'' = Inr updated \<and> componentsOf issue = Inr components \<and>
      labelsOf issue = Inr labels \<and> fixVersionsOf issue = Inr fixVersions \<and>
      storyPointsOf issue = Inr storyPoints \<and> issueLinksOf issue = Inr issueLinks \<and>
      urlOf n cfg issue = Inr url \<and>
      out = JObj
       [(''key'', key), (''summary'', summary), (''description'', description),
        (''status'', status), (''priority'', priority), (''assignee'', assignee),
        (''reporter'', reporter), (''created'', created), (''updated'', updated),
        (''components'', components), (''labels'', labels),
        (''fixVersions'', fixVersions), (''storyPoints'', storyPoints),
        (''issueLinks'', issueLinks), (''url'', url)])"
  unfolding transformUserStory_def ebind_eq_Inr by blast

text \<open>
  Each property of the returned object is the value of its expression.
\<close>

lemma transform_fields:
  assumes "transformUserStory n cfg issue = Inr out"
  shows "keyOf issue = Inr (lookupProp out ''key'')"
    and "summaryOf issue = Inr (lookupProp out ''summary'')"
    and "descriptionOf issue = Inr (lookupProp out ''description'')"
    and "statusOf issue = Inr (lookupProp out ''status'')"
    and "priorityOf issue = Inr (lookupProp out ''priority'')"
    and "personOf issue ''assignee'' = Inr (lookupProp out ''assignee'')"
    and "personOf issue ''reporter'' = Inr (lookupProp out ''reporter'')"
    and "fieldOf issue ''created'' = Inr (lookupProp out ''created'')"
    and "fieldOf issue ''updated'' = Inr (lookupProp out ''updated'')"
    and "componentsOf issue = Inr (lookupProp out ''components'')"
    and "labelsOf issue = Inr (lookupProp out ''labels'')"
    and "fixVersionsOf issue = Inr (lookupProp out ''fixVersions'')"
    and "storyPointsOf issue = Inr (lookupProp out ''storyPoints'')"
    and "issueLinksOf issue = Inr (lookupProp out ''issueLinks'')"
    and "urlOf n cfg issue = Inr (lookupProp out ''url'')"
  using assms unfolding transformUserStory_eq_Inr by auto

lemma transformed_has_status:
  assumes "transformUserStory n cfg issue = Inr story"
  shows "\<not> nullish story" and "\<not> nullish (lookupProp story ''status'')"
proof -
  have "statusOf issue = Inr (lookupProp story ''status'')"
    using assms by (rule transform_fields)
  then show "\<not> nullish (lookupProp story ''status'')"
    by (auto simp: statusOf_eq_Inr Let_def)
  show "\<not> nullish story"
    using assms by (auto simp: transformUserStory_eq_Inr)
qed

lemma transform_returns_iff:
  "(\<exists>story. transformUserStory n cfg issue = Inr story) \<longleftrightarrow> returnsOn n issue"
proof -
  have "(\<exists>story. transformUserStory n cfg issue = Inr story) \<longleftrightarrow>
      (\<exists>r. keyOf issue = Inr r) \<and> (\<exists>r. summaryOf issue = Inr r) \<and>
      (\<exists>r. descriptionOf issue = Inr r) \<and> (\<exists>r. statusOf issue = Inr r) \<and>
      (\<exists>r. priorityOf issue = Inr r) \<and> (\<exists>r. personOf issue ''assignee'' = Inr r) \<and>
      (\<exists>r. personOf issue ''reporter'' = Inr r) \<and> (\<exists>r. fieldOf issue ''created'' = Inr r) \<and>
      (\<exists>r. fieldOf issue ''updated'' = Inr r) \<and> (\<exists>r. componentsOf issue = Inr r) \<and>
      (\<exists>r. labelsOf issue = Inr r) \<and> (\<exists>r. fixVersionsOf issue = Inr r) \<and>
      (\<exists>r. storyPointsOf issue = Inr r) \<and> (\<exists>r. issueLinksOf issue = Inr r) \<and>
      (\<exists>r. urlOf n cfg issue = Inr r)"
    unfolding transformUserStory_eq_Inr by blast
  also have "\<dots> \<longleftrightarrow> returnsOn n issue"
    unfolding componentsOf_def fixVersionsOf_def issueLinksOf_def mapped_or_empty_returns
      nameOf_returns transformLink_returns
    by (auto simp: returnsOn_def entriesPresent_def linksTyped_def Let_def keyOf_def
        summaryOf_def getProp_eq_Inr fieldOf_eq_Inr descriptionOf_eq_Inr statusOf_eq_Inr
        priorityOf_eq_Inr personOf_eq_Inr labelsOf_def storyPointsOf_def or_default_eq_Inr
        urlOf_eq_Inr toStr_returns)
  finally show ?thesis .
qed

lemmas transform_defs =
  transformUserStory_def keyOf_def getProp_def fieldOf_def summaryOf_def descriptionOf_def
  eor_def richText_def optProp_def optIdx0_def placeholder_def statusOf_def priorityOf_def
  personOf_def nameOf_def componentsOf_def optMap_def mapE_def labelsOf_def fixVersionsOf_def
  storyPointsOf_def transformLink_def issueLinksOf_def urlOf_def

text \<open>
  The example records and their normalized records.
\<close>

lemma zeroPointsIssue_run:
  "transformUserStory noNumberText exampleConfig zeroPointsIssue = Inr zeroPointsStory"
  by (simp add: transform_defs zeroPointsIssue_def zeroPointsStory_def exampleStatus_def
      exampleConfig_def noNumberText_def)

lemma linkedIssue_run:
  "transformUserStory noNumberText exampleConfig linkedIssue = Inr linkedStory"
  by (simp add: transform_defs linkedIssue_def linkedStory_def blocksLink_def blockedByLink_def
      exampleStatus_def exampleConfig_def noNumberText_def)

section \<open>The description\<close>

text \<open>
  Claim C1, as amended. Whenever transformUserStory returns, the description is the
  first text segment of the first content block of the description body when that path
  yields a truthy value; otherwise it is the raw description field itself when that is
  truthy, whatever its type; otherwise it is the placeholder. The result is never absent,
  and it is a string whenever the raw field is a string or absent.
\<close>

theorem description_precedence:
  assumes "transformUserStory numberToString cfg issue = Inr story"
    and "d = lookupProp (lookupProp issue ''fields'') ''description''"
  shows "lookupProp story ''description'' =
           (if truthy (richText d) then richText d
            else if truthy d then d else JStr placeholder)
       \<and> truthy (lookupProp story ''description'')
       \<and> (isStr d \<or> nullish d \<longrightarrow> isStr (lookupProp story ''description''))"
proof -
  have "descriptionOf issue = Inr (lookupProp story ''description'')"
    using assms(1) by (rule transform_fields)
  then have eq: "lookupProp story ''description'' =
           (if truthy (richText d) then richText d
            else if truthy d then d else JStr placeholder)"
    by (simp add: descriptionOf_eq_Inr assms(2) Let_def)
  have str: "isStr d \<or> nullish d \<Longrightarrow> richText d = JUndefined"
    by (cases d) (simp_all add: richText_def optProp_def optIdx0_def)
  have "truthy (lookupProp story ''description'')"
    by (simp add: eq placeholder_def)
  moreover have "isStr d \<or> nullish d \<longrightarrow> isStr (lookupProp story ''description'')"
    using str by (cases d) (auto simp: eq)
  ultimately show ?thesis using eq by simp
qed

text \<open>
  The rich-text record of the specification is normalized, and its description is the
  text \<open>A\<close> of the body.
\<close>

theorem description_precedence_witness:
  "transformUserStory noNumberText exampleConfig richTextIssue =
     Inr (JObj
       [(''key'', JStr ''PROJ-2''), (''summary'', JStr ''S''),
        (''description'', JStr ''A''),
        (''status'', JObj [(''name'', JStr ''Open''), (''category'', JStr ''To Do'')]),
        (''priority'', JObj [(''name'', JStr ''None''), (''id'', JNull)]),
        (''assignee'', JNull), (''reporter'', JNull),
        (''created'', JUndefined), (''updated'', JUndefined),
        (''components'', JArr []), (''labels'', JArr []),
        (''fixVersions'', JArr []), (''storyPoints'', JNull),
        (''issueLinks'', JArr []),
        (''url'', JStr ''https://jira.example/browse/PROJ-2'')])
   \<and> richText (lookupProp (lookupProp richTextIssue ''fields'') ''description'') = JStr ''A''"
proof -
  have ran: "transformUserStory noNumberText exampleConfig richTextIssue =
     Inr (JObj
       [(''key'', JStr ''PROJ-2''), (''summary'', JStr ''S''),
        (''description'', JStr ''A''),
        (''status'', JObj [(''name'', JStr ''Open''), (''category'', JStr ''To Do'')]),
        (''priority'', JObj [(''name'', JStr ''None''), (''id'', JNull)]),
        (''assignee'', JNull), (''reporter'', JNull),
        (''created'', JUndefined), (''updated'', JUndefined),
        (''components'', JArr []), (''labels'', JArr []),
        (''fixVersions'', JArr []), (''storyPoints'', JNull),
        (''issueLinks'', JArr []),
        (''url'', JStr ''https://jira.example/browse/PROJ-2'')])"
    by (simp add: transform_defs richTextIssue_def exampleStatus_def exampleConfig_def
        noNumberText_def)
  have rich: "richText (lookupProp (lookupProp richTextIssue ''fields'') ''description'') = JStr ''A''"
    by (simp add: richTextIssue_def richText_def optProp_def optIdx0_def)
  from description_precedence [OF ran refl] rich ran show ?thesis
    by simp
qed

text \<open>
  The three examples of the specification: the text of a rich-text body, a plain
  string, the placeholder.
\<close>

lemma description_examples:
  "descriptionOf richTextIssue = Inr (JStr ''A'')"
  "descriptionOf plainTextIssue = Inr (JStr ''B'')"
  "descriptionOf zeroPointsIssue = Inr (JStr ''No description available'')"
  by (simp_all add: transform_defs richTextIssue_def plainTextIssue_def zeroPointsIssue_def
      exampleStatus_def)

text \<open>
  Claim C1 as stated fails. The description body of \<open>breakFirstIssue\<close> is a rich-text
  object whose text path does not resolve, and it is not a plain value; the claim
  promises the placeholder, and a string in every case. The description returned is the
  body object itself.
\<close>

theorem description_not_a_string:
  "transformUserStory noNumberText exampleConfig breakFirstIssue =
     Inr (JObj
       [(''key'', JStr ''PROJ-4''), (''summary'', JStr ''S''),
        (''description'', breakFirstBody),
        (''status'', JObj [(''name'', JStr ''Open''), (''category'', JStr ''To Do'')]),
        (''priority'', JObj [(''name'', JStr ''None''), (''id'', JNull)]),
        (''assignee'', JNull), (''reporter'', JNull),
        (''created'', JUndefined), (''updated'', JUndefined),
        (''components'', JArr []), (''labels'', JArr []),
        (''fixVersions'', JArr []), (''storyPoints'', JNull),
        (''issueLinks'', JArr []),
        (''url'', JStr ''https://jira.example/browse/PROJ-4'')])
   \<and> lookupProp (lookupProp breakFirstIssue ''fields'') ''description'' = breakFirstBody
   \<and> richText breakFirstBody = JUndefined
   \<and> \<not> isStr breakFirstBody
   \<and> breakFirstBody \<noteq> JStr placeholder"
  by (simp add: transform_defs breakFirstIssue_def breakFirstBody_def exampleStatus_def
      exampleConfig_def noNumberText_def)

section \<open>Totality and absent values\<close>

text \<open>
  Claim C2, as amended. transformUserStory returns without an exception exactly on the
  records of the shape \<open>returnsOn\<close>. Whenever it returns, \<open>description\<close>, the name and id
  of \<open>priority\<close>, \<open>assignee\<close>, \<open>reporter\<close>, \<open>labels\<close> and \<open>storyPoints\<close> are not
  \<open>undefined\<close>, \<open>status\<close> is an object, \<open>components\<close>, \<open>fixVersions\<close> and \<open>issueLinks\<close>
  are arrays and \<open>url\<close> is a string; \<open>key\<close>, \<open>summary\<close>, \<open>created\<close> and \<open>updated\<close> are
  copies of the source values, \<open>undefined\<close> where the record lacks them.
\<close>

theorem transformUserStory_returns_and_defined:
  "((\<exists>story. transformUserStory numberToString cfg issue = Inr story) \<longleftrightarrow>
      returnsOn numberToString issue)
   \<and> (\<forall>story. transformUserStory numberToString cfg issue = Inr story \<longrightarrow>
        lookupProp story ''description'' \<noteq> JUndefined
      \<and> isObj (lookupProp story ''status'')
      \<and> lookupProp (lookupProp story ''priority'') ''name'' \<noteq> JUndefined
      \<and> lookupProp (lookupProp story ''priority'') ''id'' \<noteq> JUndefined
      \<and> lookupProp story ''assignee'' \<noteq> JUndefined
      \<and> lookupProp story ''reporter'' \<noteq> JUndefined
      \<and> isArr (lookupProp story ''components'')
      \<and> lookupProp story ''labels'' \<noteq> JUndefined
      \<and> isArr (lookupProp story ''fixVersions'')
      \<and> lookupProp story ''storyPoints'' \<noteq> JUndefined
      \<and> isArr (lookupProp story ''issueLinks'')
      \<and> isStr (lookupProp story ''url'')
      \<and> lookupProp story ''key'' = lookupProp issue ''key''
      \<and> lookupProp story ''summary'' = lookupProp (lookupProp issue ''fields'') ''summary''
      \<and> lookupProp story ''created'' = lookupProp (lookupProp issue ''fields'') ''created''
      \<and> lookupProp story ''updated'' = lookupProp (lookupProp issue ''fields'') ''updated'')"
proof -
  have defined: "lookupProp story ''description'' \<noteq> JUndefined
      \<and> isObj (lookupProp story ''status'')
      \<and> lookupProp (lookupProp story ''priority'') ''name'' \<noteq> JUndefined
      \<and> lookupProp (lookupProp story ''priority'') ''id'' \<noteq> JUndefined
      \<and> lookupProp story ''assignee'' \<noteq> JUndefined
      \<and> lookupProp story ''reporter'' \<noteq> JUndefined
      \<and> isArr (lookupProp story ''components'')
      \<and> lookupProp story ''labels'' \<noteq> JUndefined
      \<and> isArr (lookupProp story ''fixVersions'')
      \<and> lookupProp story ''storyPoints'' \<noteq> JUndefined
      \<and> isArr (lookupProp story ''issueLinks'')
      \<and> isStr (lookupProp story ''url'')
      \<and> lookupProp story ''key'' = lookupProp issue ''key''
      \<and> lookupProp story ''summary'' = lookupProp (lookupProp issue ''fields'') ''summary''
      \<and> lookupProp story ''created'' = lookupProp (lookupProp issue ''fields'') ''created''
      \<and> lookupProp story ''updated'' = lookupProp (lookupProp issue ''fields'') ''updated''"
    if ran: "transformUserStory numberToString cfg issue = Inr story" for story
  proof -
    note f = transform_fields [OF ran]
    have "descriptionOf issue = Inr (lookupProp story ''description'')" by (rule f)
    then have d: "lookupProp story ''description'' \<noteq> JUndefined"
      by (auto simp: descriptionOf_eq_Inr Let_def placeholder_def)
    have "statusOf issue = Inr (lookupProp story ''status'')" by (rule f)
    then have s: "isObj (lookupProp story ''status'')"
      by (auto simp: statusOf_eq_Inr Let_def)
    have "priorityOf issue = Inr (lookupProp story ''priority'')" by (rule f)
    then have p: "lookupProp (lookupProp story ''priority'') ''name'' \<noteq> JUndefined
        \<and> lookupProp (lookupProp story ''priority'') ''id'' \<noteq> JUndefined"
      by (auto simp: priorityOf_eq_Inr Let_def)
    have "personOf issue ''assignee'' = Inr (lookupProp story ''assignee'')" by (rule f)
    then have a: "lookupProp story ''assignee'' \<noteq> JUndefined"
      by (auto simp: personOf_eq_Inr Let_def)
    have "personOf issue ''reporter'' = Inr (lookupProp story ''reporter'')" by (rule f)
    then have r: "lookupProp story ''reporter'' \<noteq> JUndefined"
      by (auto simp: personOf_eq_Inr Let_def)
    have "componentsOf issue = Inr (lookupProp story ''components'')" by (rule f)
    then have c: "isArr (lookupProp story ''components'')"
      by (auto simp: componentsOf_def mapped_or_empty Let_def)
    have "labelsOf issue = Inr (lookupProp story ''labels'')" by (rule f)
    then have l: "lookupProp story ''labels'' \<noteq> JUndefined"
      by (auto simp: labelsOf_def or_default_eq_Inr Let_def)
    have "fixVersionsOf issue = Inr (lookupProp story ''fixVersions'')" by (rule f)
    then have v: "isArr (lookupProp story ''fixVersions'')"
      by (auto simp: fixVersionsOf_def mapped_or_empty Let_def)
    have "storyPointsOf issue = Inr (lookupProp story ''storyPoints'')" by (rule f)
    then have sp: "lookupProp story ''storyPoints'' \<noteq> JUndefined"
      by (auto simp: storyPointsOf_def or_default_eq_Inr Let_def)
    have "issueLinksOf issue = Inr (lookupProp story ''issueLinks'')" by (rule f)
    then have il: "isArr (lookupProp story ''issueLinks'')"
      by (auto simp: issueLinksOf_def mapped_or_empty Let_def)
    have "urlOf numberToString cfg issue = Inr (lookupProp story ''url'')" by (rule f)
    then have u: "isStr (lookupProp story ''url'')"
      by (auto simp: urlOf_eq_Inr)
    have "keyOf issue = Inr (lookupProp story ''key'')" by (rule f)
    then have k: "lookupProp story ''key'' = lookupProp issue ''key''"
      by (simp add: keyOf_def getProp_eq_Inr)
    have "summaryOf issue = Inr (lookupProp story ''summary'')" by (rule f)
    then have su: "lookupProp story ''summary'' = lookupProp (lookupProp issue ''fields'') ''summary''"
      by (simp add: summaryOf_def fieldOf_eq_Inr)
    have "fieldOf issue ''created'' = Inr (lookupProp story ''created'')" by (rule f)
    then have cr: "lookupProp story ''created'' = lookupProp (lookupProp issue ''fields'') ''created''"
      by (simp add: fieldOf_eq_Inr)
    have "fieldOf issue ''updated'' = Inr (lookupProp story ''updated'')" by (rule f)
    then have up: "lookupProp story ''updated'' = lookupProp (lookupProp issue ''fields'') ''updated''"
      by (simp add: fieldOf_eq_Inr)
    from d s p a r c l v sp il u k su cr up show ?thesis by blast
  qed
  have "(\<exists>story. transformUserStory numberToString cfg issue = Inr story) \<longleftrightarrow>
      returnsOn numberToString issue"
    by (rule transform_returns_iff)
  with defined show ?thesis by blast
qed

text \<open>
  The record \<open>linkedIssue\<close> has the shape, and is normalized.
\<close>

theorem transformUserStory_returns_and_defined_witness:
  "returnsOn noNumberText linkedIssue
   \<and> transformUserStory noNumberText exampleConfig linkedIssue = Inr linkedStory
   \<and> lookupProp linkedStory ''description'' = JStr ''No description available''
   \<and> lookupProp linkedStory ''storyPoints'' = JNull
   \<and> isArr (lookupProp linkedStory ''issueLinks'')"
proof -
  have ran: "transformUserStory noNumberText exampleConfig linkedIssue = Inr linkedStory"
    by (rule linkedIssue_run)
  from transformUserStory_returns_and_defined [of noNumberText exampleConfig linkedIssue] ran
  have "returnsOn noNumberText linkedIssue \<and> isArr (lookupProp linkedStory ''issueLinks'')"
    by blast
  then show ?thesis using ran
    by (simp add: linkedStory_def)
qed

text \<open>
  Claim C2 as stated fails. The record \<open>linkedIssue\<close> satisfies the structural guarantee,
  and its normalized record has \<open>undefined\<close> values: the e-mail address of the assignee,
  \<open>created\<close> and \<open>updated\<close>.
\<close>

theorem guaranteed_record_has_undefined_fields:
  "structuralGuarantee linkedIssue
   \<and> transformUserStory noNumberText exampleConfig linkedIssue = Inr linkedStory
   \<and> lookupProp (lookupProp linkedStory ''assignee'') ''emailAddress'' = JUndefined
   \<and> lookupProp linkedStory ''created'' = JUndefined
   \<and> lookupProp linkedStory ''updated'' = JUndefined"
  by (simp add: transform_defs structuralGuarantee_def linkedIssue_def linkedStory_def
      blocksLink_def blockedByLink_def exampleStatus_def exampleConfig_def noNumberText_def)

section \<open>Issue links\<close>

text \<open>
  Claim C3 says that \<open>direction\<close> is the inward label when the record is the inward
  side of the link and the outward label otherwise. The code evaluates
  \<open>link.type.inward || link.type.outward\<close>, which does not look at the side: for the link
  \<open>blocksLink\<close>, whose linked issue is the outward issue PROJ-9, it answers the inward
  label \<open>is blocked by\<close>, not the outward label \<open>blocks\<close>.
\<close>

theorem outward_link_gets_inward_label:
  "transformLink blocksLink =
     Inr (JObj [(''type'', JStr ''Blocks''), (''direction'', JStr ''is blocked by''),
                (''linkedIssue'', JStr ''PROJ-9'')])
   \<and> lookupProp blocksLink ''inwardIssue'' = JUndefined
   \<and> lookupProp (lookupProp blocksLink ''outwardIssue'') ''key'' = JStr ''PROJ-9''
   \<and> lookupProp (lookupProp blocksLink ''type'') ''outward'' = JStr ''blocks''"
  by (simp add: transform_defs blocksLink_def)

section \<open>Array-valued fields\<close>

text \<open>
  Claim C4. Whenever transformUserStory returns: if \<open>components\<close>, \<open>labels\<close>,
  \<open>fixVersions\<close> or \<open>issuelinks\<close> is absent from the record, the normalized field is the
  empty array; if the source is an array, the normalized field is the array of the names
  of the components, of the labels themselves, of the names of the versions, and of the
  link triples made by the callback, in the order of the source.
\<close>

theorem array_fields_default_and_map:
  assumes "transformUserStory numberToString cfg issue = Inr story"
    and "fs = lookupProp issue ''fields''"
  shows "(nullish (lookupProp fs ''components'') \<longrightarrow> lookupProp story ''components'' = JArr [])
       \<and> (nullish (lookupProp fs ''labels'') \<longrightarrow> lookupProp story ''labels'' = JArr [])
       \<and> (nullish (lookupProp fs ''fixVersions'') \<longrightarrow> lookupProp story ''fixVersions'' = JArr [])
       \<and> (nullish (lookupProp fs ''issuelinks'') \<longrightarrow> lookupProp story ''issueLinks'' = JArr [])
       \<and> (\<forall>xs. lookupProp fs ''components'' = JArr xs \<longrightarrow>
             lookupProp story ''components'' = JArr (map (\<lambda>c. lookupProp c ''name'') xs))
       \<and> (\<forall>xs. lookupProp fs ''labels'' = JArr xs \<longrightarrow> lookupProp story ''labels'' = JArr xs)
       \<and> (\<forall>xs. lookupProp fs ''fixVersions'' = JArr xs \<longrightarrow>
             lookupProp story ''fixVersions'' = JArr (map (\<lambda>v. lookupProp v ''name'') xs))
       \<and> (\<forall>xs. lookupProp fs ''issuelinks'' = JArr xs \<longrightarrow>
             (\<exists>ys. lookupProp story ''issueLinks'' = JArr ys \<and>
                   list_all2 (\<lambda>link triple. transformLink link = Inr triple) xs ys))"
proof -
  note f = transform_fields [OF assms(1)]
  have comps: "componentsOf issue = Inr (lookupProp story ''components'')" by (rule f)
  have labs: "labelsOf issue = Inr (lookupProp story ''labels'')" by (rule f)
  have vers: "fixVersionsOf issue = Inr (lookupProp story ''fixVersions'')" by (rule f)
  have links: "issueLinksOf issue = Inr (lookupProp story ''issueLinks'')" by (rule f)
  have c1: "nullish (lookupProp fs ''components'') \<longrightarrow> lookupProp story ''components'' = JArr []"
    using comps by (auto simp: componentsOf_def mapped_or_empty assms(2) Let_def)
  have c2: "nullish (lookupProp fs ''labels'') \<longrightarrow> lookupProp story ''labels'' = JArr []"
    using labs by (cases "lookupProp fs ''labels''")
      (auto simp: labelsOf_def or_default_eq_Inr assms(2) Let_def)
  have c3: "nullish (lookupProp fs ''fixVersions'') \<longrightarrow> lookupProp story ''fixVersions'' = JArr []"
    using vers by (auto simp: fixVersionsOf_def mapped_or_empty assms(2) Let_def)
  have c4: "nullish (lookupProp fs ''issuelinks'') \<longrightarrow> lookupProp story ''issueLinks'' = JArr []"
    using links by (auto simp: issueLinksOf_def mapped_or_empty assms(2) Let_def)
  have c5: "\<forall>xs. lookupProp fs ''components'' = JArr xs \<longrightarrow>
             lookupProp story ''components'' = JArr (map (\<lambda>c. lookupProp c ''name'') xs)"
    using comps by (auto simp: componentsOf_def mapped_or_empty assms(2) Let_def mapE_nameOf)
  have c6: "\<forall>xs. lookupProp fs ''labels'' = JArr xs \<longrightarrow> lookupProp story ''labels'' = JArr xs"
    using labs by (auto simp: labelsOf_def or_default_eq_Inr assms(2) Let_def)
  have c7: "\<forall>xs. lookupProp fs ''fixVersions'' = JArr xs \<longrightarrow>
             lookupProp story ''fixVersions'' = JArr (map (\<lambda>v. lookupProp v ''name'') xs)"
    using vers by (auto simp: fixVersionsOf_def mapped_or_empty assms(2) Let_def mapE_nameOf)
  have c8: "\<forall>xs. lookupProp fs ''issuelinks'' = JArr xs \<longrightarrow>
             (\<exists>ys. lookupProp story ''issueLinks'' = JArr ys \<and>
                   list_all2 (\<lambda>link triple. transformLink link = Inr triple) xs ys)"
    using links by (auto simp: issueLinksOf_def mapped_or_empty assms(2) Let_def mapE_eq_Inr)
  from c1 c2 c3 c4 c5 c6 c7 c8 show ?thesis by blast
qed

text \<open>
  In \<open>linkedIssue\<close> the labels are absent and the components are present.
\<close>

theorem array_fields_default_and_map_witness:
  "transformUserStory noNumberText exampleConfig linkedIssue = Inr linkedStory
   \<and> nullish (lookupProp (lookupProp linkedIssue ''fields'') ''labels'')
   \<and> lookupProp linkedStory ''labels'' = JArr []
   \<and> lookupProp (lookupProp linkedIssue ''fields'') ''components'' =
        JArr [JObj [(''name'', JStr ''api'')], JObj [(''name'', JStr ''ui'')]]
   \<and> lookupProp linkedStory ''components'' = JArr [JStr ''api'', JStr ''ui'']"
proof -
  have ran: "transformUserStory noNumberText exampleConfig linkedIssue = Inr linkedStory"
    by (rule linkedIssue_run)
  have absent: "nullish (lookupProp (lookupProp linkedIssue ''fields'') ''labels'')"
    by (simp add: linkedIssue_def)
  have present: "lookupProp (lookupProp linkedIssue ''fields'') ''components'' =
        JArr [JObj [(''name'', JStr ''api'')], JObj [(''name'', JStr ''ui'')]]"
    by (simp add: linkedIssue_def)
  from array_fields_default_and_map [OF ran refl] absent present ran show ?thesis
    by simp
qed

section \<open>Assignee and reporter\<close>

text \<open>
  Claim C5. Whenever transformUserStory returns, \<open>assignee\<close> is \<open>null\<close> when the source
  field is absent and the projection to \<open>displayName\<close>, \<open>emailAddress\<close> and \<open>accountId\<close>
  when the source field is an object; over these sources it is \<open>null\<close> exactly when the
  source is absent. The same holds for \<open>reporter\<close>. (In general the field is the
  projection when the source is truthy and \<open>null\<close> otherwise.)
\<close>

theorem person_null_distinction:
  assumes "transformUserStory numberToString cfg issue = Inr story"
    and "a = lookupProp (lookupProp issue ''fields'') ''assignee''"
    and "r = lookupProp (lookupProp issue ''fields'') ''reporter''"
  shows "(nullish a \<longrightarrow> lookupProp story ''assignee'' = JNull)
       \<and> (isObj a \<longrightarrow> lookupProp story ''assignee'' =
             JObj [(''displayName'', lookupProp a ''displayName''),
                   (''emailAddress'', lookupProp a ''emailAddress''),
                   (''accountId'', lookupProp a ''accountId'')])
       \<and> (nullish a \<or> isObj a \<longrightarrow> (lookupProp story ''assignee'' = JNull \<longleftrightarrow> nullish a))
       \<and> (nullish r \<longrightarrow> lookupProp story ''reporter'' = JNull)
       \<and> (isObj r \<longrightarrow> lookupProp story ''reporter'' =
             JObj [(''displayName'', lookupProp r ''displayName''),
                   (''emailAddress'', lookupProp r ''emailAddress''),
                   (''accountId'', lookupProp r ''accountId'')])
       \<and> (nullish r \<or> isObj r \<longrightarrow> (lookupProp story ''reporter'' = JNull \<longleftrightarrow> nullish r))
       \<and> lookupProp story ''assignee'' =
             (if truthy a
              then JObj [(''displayName'', lookupProp a ''displayName''),
                         (''emailAddress'', lookupProp a ''emailAddress''),
                         (''accountId'', lookupProp a ''accountId'')]
              else JNull)
       \<and> lookupProp story ''reporter'' =
             (if truthy r
              then JObj [(''displayName'', lookupProp r ''displayName''),
                         (''emailAddress'', lookupProp r ''emailAddress''),
                         (''accountId'', lookupProp r ''accountId'')]
              else JNull)"
proof -
  have pa: "personOf issue ''assignee'' = Inr (lookupProp story ''assignee'')"
    using assms(1) by (rule transform_fields)
  have pr: "personOf issue ''reporter'' = Inr (lookupProp story ''reporter'')"
    using assms(1) by (rule transform_fields)
  have A: "lookupProp story ''assignee'' =
      (if truthy a then JObj [(''displayName'', lookupProp a ''displayName''),
                   (''emailAddress'', lookupProp a ''emailAddress''),
                   (''accountId'', lookupProp a ''accountId'')] else JNull)"
    using pa by (simp add: personOf_eq_Inr assms(2) Let_def)
  have R: "lookupProp story ''reporter'' =
      (if truthy r then JObj [(''displayName'', lookupProp r ''displayName''),
                   (''emailAddress'', lookupProp r ''emailAddress''),
                   (''accountId'', lookupProp r ''accountId'')] else JNull)"
    using pr by (simp add: personOf_eq_Inr assms(3) Let_def)
  have "(nullish a \<longrightarrow> lookupProp story ''assignee'' = JNull)
       \<and> (isObj a \<longrightarrow> lookupProp story ''assignee'' =
             JObj [(''displayName'', lookupProp a ''displayName''),
                   (''emailAddress'', lookupProp a ''emailAddress''),
                   (''accountId'', lookupProp a ''accountId'')])
       \<and> (nullish a \<or> isObj a \<longrightarrow> (lookupProp story ''assignee'' = JNull \<longleftrightarrow> nullish a))"
    unfolding A by (cases a) simp_all
  moreover have "(nullish r \<longrightarrow> lookupProp story ''reporter'' = JNull)
       \<and> (isObj r \<longrightarrow> lookupProp story ''reporter'' =
             JObj [(''displayName'', lookupProp r ''displayName''),
                   (''emailAddress'', lookupProp r ''emailAddress''),
                   (''accountId'', lookupProp r ''accountId'')])
       \<and> (nullish r \<or> isObj r \<longrightarrow> (lookupProp story ''reporter'' = JNull \<longleftrightarrow> nullish r))"
    unfolding R by (cases r) simp_all
  ultimately show ?thesis using A R by blast
qed

text \<open>
  In \<open>linkedIssue\<close> the assignee is an object and the reporter is absent.
\<close>

theorem person_null_distinction_witness:
  "transformUserStory noNumberText exampleConfig linkedIssue = Inr linkedStory
   \<and> isObj (lookupProp (lookupProp linkedIssue ''fields'') ''assignee'')
   \<and> nullish (lookupProp (lookupProp linkedIssue ''fields'') ''reporter'')
   \<and> lookupProp linkedStory ''assignee'' =
       JObj [(''displayName'', JStr ''Ann''), (''emailAddress'', JUndefined),
             (''accountId'', JStr ''a1'')]
   \<and> lookupProp linkedStory ''reporter'' = JNull"
proof -
  have ran: "transformUserStory noNumberText exampleConfig linkedIssue = Inr linkedStory"
    by (rule linkedIssue_run)
  have present: "isObj (lookupProp (lookupProp linkedIssue ''fields'') ''assignee'')"
    by (simp add: linkedIssue_def)
  have absent: "nullish (lookupProp (lookupProp linkedIssue ''fields'') ''reporter'')"
    by (simp add: linkedIssue_def)
  from person_null_distinction [OF ran refl refl] present absent ran show ?thesis
    by (simp add: linkedIssue_def)
qed

section \<open>Story points\<close>

text \<open>
  Claim C10. Whenever transformUserStory returns, \<open>storyPoints\<close> is the story-point field
  \<open>customfield_10016\<close> of the record if that value is truthy, and \<open>null\<close> otherwise. In
  particular a record estimated at the number 0 is given \<open>storyPoints: null\<close>, not 0.
\<close>

theorem storyPoints_falsy_collapse:
  assumes "transformUserStory numberToString cfg issue = Inr story"
    and "points = lookupProp (lookupProp issue ''fields'') ''customfield_10016''"
  shows "lookupProp story ''storyPoints'' = (if truthy points then points else JNull)
       \<and> (points = JNum 0 \<longrightarrow> lookupProp story ''storyPoints'' = JNull)"
proof -
  have "storyPointsOf issue = Inr (lookupProp story ''storyPoints'')"
    using assms(1) by (rule transform_fields)
  then have "lookupProp story ''storyPoints'' = (if truthy points then points else JNull)"
    by (auto simp: storyPointsOf_def eor_eq_Inr fieldOf_eq_Inr assms(2))
  then show ?thesis by simp
qed

text \<open>
  The record \<open>zeroPointsIssue\<close> is normalized, and its zero estimate becomes \<open>null\<close>.
\<close>

theorem storyPoints_falsy_collapse_witness:
  "transformUserStory noNumberText exampleConfig zeroPointsIssue = Inr zeroPointsStory
   \<and> lookupProp (lookupProp zeroPointsIssue ''fields'') ''customfield_10016'' = JNum 0
   \<and> lookupProp zeroPointsStory ''storyPoints'' = JNull"
proof -
  have ran: "transformUserStory noNumberText exampleConfig zeroPointsIssue = Inr zeroPointsStory"
    by (rule zeroPointsIssue_run)
  have pts: "lookupProp (lookupProp zeroPointsIssue ''fields'') ''customfield_10016'' = JNum 0"
    by (simp add: zeroPointsIssue_def)
  from storyPoints_falsy_collapse [OF ran pts [symmetric]] have
    "lookupProp zeroPointsStory ''storyPoints'' = JNull"
    by simp
  with ran pts show ?thesis
    by simp
qed

section \<open>The stages of the pipeline\<close>

lemma fetch_returns:
  "fst (fetchUserStories n env project m) = Inr raw \<longleftrightarrow>
     (\<exists>d. response env = Resolved d \<and> \<not> nullish d \<and>
          \<not> isl (toStr n (lookupProp d ''total'')) \<and> raw = lookupProp d ''issues'')"
  by (cases "response env")
     (auto simp: fetchUserStories_def Let_def getProp_def split: sum.splits)

lemma fetch_trace_quiet:
  "\<not> list_ex mutatesFiles (snd (fetchUserStories n env project m))"
  "writtenFiles (snd (fetchUserStories n env project m)) = []"
  "Log MsgTransforming \<notin> set (snd (fetchUserStories n env project m))"
  by (auto simp: fetchUserStories_def Let_def split: http_outcome.splits sum.splits)

lemma writtenFiles_append [simp]: "writtenFiles (xs @ ys) = writtenFiles xs @ writtenFiles ys"
  by (induction xs rule: writtenFiles.induct) simp_all

lemma save_returns:
  "fst (saveToJSON cfg env stories filename) = Inr p \<longleftrightarrow>
     writeFailure env = None \<and> (dataDirExists env \<or> mkdirFailure env = None) \<and>
     p = butlast (dirname env) @ [''data'', filename]"
  by (auto simp: saveToJSON_def Let_def split: option.splits)

lemma save_written:
  "writtenFiles (snd (saveToJSON cfg env stories filename)) =
     (if isl (fst (saveToJSON cfg env stories filename)) then []
      else [(butlast (dirname env) @ [''data'', filename],
             jsonValue (JObj
               [(''metadata'', JObj
                  [(''projectKey'', JStr (projectKey cfg)),
                   (''totalStories'', JNum (of_nat (length stories))),
                   (''fetchedAt'', JStr (now env)),
                   (''jiraBaseUrl'', JStr (baseURL cfg))]),
                (''userStories'', JArr stories)]))])"
  by (auto simp: saveToJSON_def Let_def split: option.splits)

lemma save_failure_last:
  "fst (saveToJSON cfg env stories filename) = Inl e \<Longrightarrow>
     last (snd (saveToJSON cfg env stories filename)) = LogError (MsgSaveError e)"
  by (auto simp: saveToJSON_def Let_def split: option.splits if_splits)

lemma countStatus_returns:
  assumes "\<not> nullish story" and "\<not> nullish (lookupProp story ''status'')"
    and "\<not> isl (toStr n (lookupProp (lookupProp story ''status'') ''name''))"
  shows "\<exists>acc'. countStatus n acc story = Inr acc'"
  using assms
  by (cases "toStr n (lookupProp (lookupProp story ''status'') ''name'')")
     (simp_all add: countStatus_def getProp_def)

lemma transformAll_eq_Inr:
  "transformAll n cfg raw = Inr stories \<longleftrightarrow>
     (\<exists>xs. raw = JArr xs \<and> mapE (transformUserStory n cfg) xs = Inr stories)"
  by (cases raw) (simp_all add: transformAll_def)

lemma statusCounts_returns:
  assumes "transformAll n cfg raw = Inr stories"
    and "list_all (\<lambda>s. isPrimitive (lookupProp (lookupProp s ''status'') ''name'')) stories"
  shows "\<exists>counts. statusCounts n stories = Inr counts"
  unfolding statusCounts_def
proof (rule reduceE_returns)
  fix acc s
  assume mem: "s \<in> set stories"
  obtain xs where "mapE (transformUserStory n cfg) xs = Inr stories"
    using assms(1) by (auto simp: transformAll_eq_Inr)
  then obtain x where "transformUserStory n cfg x = Inr s"
    using mem by (blast dest: mapE_members)
  then have "\<not> nullish s" "\<not> nullish (lookupProp s ''status'')"
    by (rule transformed_has_status)+
  moreover have "\<not> isl (toStr n (lookupProp (lookupProp s ''status'') ''name''))"
    using assms(2) mem toStr_primitive by (auto simp: list_all_iff)
  ultimately show "\<exists>acc'. countStatus n acc s = Inr acc'"
    by (rule countStatus_returns)
qed

lemma main_fetch_failed:
  assumes "fst (fetchUserStories n env (projectKey cfg) 100) = Inl e"
  shows "main n cfg env =
           failed (prelude cfg @ snd (fetchUserStories n env (projectKey cfg) 100)) e"
  using assms by (simp add: main_def prelude_def Let_def case_prod_beta)

lemma main_transform_failed:
  assumes "fst (fetchUserStories n env (projectKey cfg) 100) = Inr raw"
    and "transformAll n cfg raw = Inl e"
  shows "main n cfg env =
           failed (prelude cfg @ snd (fetchUserStories n env (projectKey cfg) 100) @
                   [Log MsgTransforming]) e"
  using assms by (simp add: main_def prelude_def Let_def case_prod_beta)

lemma main_save_failed:
  assumes "fst (fetchUserStories n env (projectKey cfg) 100) = Inr raw"
    and "transformAll n cfg raw = Inr stories"
    and "fst (saveToJSON cfg env stories ''jira-user-story.json'') = Inl e"
  shows "main n cfg env =
           failed (prelude cfg @ snd (fetchUserStories n env (projectKey cfg) 100) @
                   [Log MsgTransforming] @
                   snd (saveToJSON cfg env stories ''jira-user-story.json'')) e"
  using assms by (simp add: main_def prelude_def Let_def case_prod_beta)

lemma main_summary_failed:
  assumes "fst (fetchUserStories n env (projectKey cfg) 100) = Inr raw"
    and "transformAll n cfg raw = Inr stories"
    and "fst (saveToJSON cfg env stories ''jira-user-story.json'') = Inr p"
    and "statusCounts n stories = Inl e"
  shows "main n cfg env =
           failed (prelude cfg @ snd (fetchUserStories n env (projectKey cfg) 100) @
                   [Log MsgTransforming] @
                   snd (saveToJSON cfg env stories ''jira-user-story.json'') @
                   [Log MsgSummary, Log (MsgTotal (length stories)), Log (MsgFileSaved p),
                    Log (MsgProject (projectKey cfg))]) e"
  using assms by (simp add: main_def prelude_def Let_def case_prod_beta)

lemma main_completed:
  assumes "fst (fetchUserStories n env (projectKey cfg) 100) = Inr raw"
    and "transformAll n cfg raw = Inr stories"
    and "fst (saveToJSON cfg env stories ''jira-user-story.json'') = Inr p"
    and "statusCounts n stories = Inr counts"
  shows "main n cfg env =
           \<lparr>exitCode = 0,
            trace = prelude cfg @ snd (fetchUserStories n env (projectKey cfg) 100) @
                   [Log MsgTransforming] @
                   snd (saveToJSON cfg env stories ''jira-user-story.json'') @
                   [Log MsgSummary, Log (MsgTotal (length stories)), Log (MsgFileSaved p),
                    Log (MsgProject (projectKey cfg))] @
                   [Log MsgByStatus, Log (MsgStatusLines counts), Log MsgCompleted]\<rparr>"
  using assms by (simp add: main_def prelude_def Let_def case_prod_beta)

lemma failed_simps [simp]:
  "exitCode (failed t e) = 1"
  "trace (failed t e) = t @ [LogError (MsgProcessFailed e)]"
  by (simp_all add: failed_def)

lemma prelude_quiet [simp]:
  "writtenFiles (prelude cfg) = []" "\<not> list_ex mutatesFiles (prelude cfg)"
  "Log MsgTransforming \<notin> set (prelude cfg)"
  by (simp_all add: prelude_def)

text \<open>
  The five ways in which a run ends.
\<close>

lemma main_cases:
  obtains
    (fetch_failed) e where "fst (fetchUserStories n env (projectKey cfg) 100) = Inl e"
  | (transform_failed) raw e where "fst (fetchUserStories n env (projectKey cfg) 100) = Inr raw"
      "transformAll n cfg raw = Inl e"
  | (save_failed) raw stories e where "fst (fetchUserStories n env (projectKey cfg) 100) = Inr raw"
      "transformAll n cfg raw = Inr stories"
      "fst (saveToJSON cfg env stories ''jira-user-story.json'') = Inl e"
  | (summary_failed) raw stories p e where "fst (fetchUserStories n env (projectKey cfg) 100) = Inr raw"
      "transformAll n cfg raw = Inr stories"
      "fst (saveToJSON cfg env stories ''jira-user-story.json'') = Inr p"
      "statusCounts n stories = Inl e"
  | (completed) raw stories p counts where "fst (fetchUserStories n env (projectKey cfg) 100) = Inr raw"
      "transformAll n cfg raw = Inr stories"
      "fst (saveToJSON cfg env stories ''jira-user-story.json'') = Inr p"
      "statusCounts n stories = Inr counts"
proof (cases "fst (fetchUserStories n env (projectKey cfg) 100)")
  case (Inl e)
  then show ?thesis by (rule fetch_failed)
next
  case fetched: (Inr raw)
  show ?thesis
  proof (cases "transformAll n cfg raw")
    case (Inl e)
    with fetched show ?thesis by (rule transform_failed)
  next
    case transformed: (Inr stories)
    show ?thesis
    proof (cases "fst (saveToJSON cfg env stories ''jira-user-story.json'')")
      case (Inl e)
      with fetched transformed show ?thesis by (rule save_failed)
    next
      case saved: (Inr p)
      show ?thesis
      proof (cases "statusCounts n stories")
        case (Inl e)
        with fetched transformed saved show ?thesis by (rule summary_failed)
      next
        case (Inr counts)
        with fetched transformed saved show ?thesis by (rule completed)
      qed
    qed
  qed
qed

lemma exit_zero_iff:
  "exitCode (main n cfg env) = 0 \<longleftrightarrow>
     (\<exists>raw stories p counts.
        fst (fetchUserStories n env (projectKey cfg) 100) = Inr raw \<and>
        transformAll n cfg raw = Inr stories \<and>
        fst (saveToJSON cfg env stories ''jira-user-story.json'') = Inr p \<and>
        statusCounts n stories = Inr counts)"
proof (cases n env cfg rule: main_cases)
  case (fetch_failed e)
  then show ?thesis by (simp add: main_fetch_failed)
next
  case (transform_failed raw e)
  then show ?thesis by (simp add: main_transform_failed)
next
  case (save_failed raw stories e)
  then show ?thesis by (simp add: main_save_failed)
next
  case (summary_failed raw stories p e)
  then show ?thesis by (simp add: main_summary_failed)
next
  case (completed raw stories p counts)
  then show ?thesis by (auto simp: main_completed)
qed

lemma exit_code_and_diagnostic:
  "exitCode (main n cfg env) = 0 \<and> last (trace (main n cfg env)) = Log MsgCompleted
   \<or> exitCode (main n cfg env) = 1 \<and>
     (\<exists>e. last (trace (main n cfg env)) = LogError (MsgProcessFailed e))"
proof (cases n env cfg rule: main_cases)
  case (fetch_failed e)
  then show ?thesis by (simp add: main_fetch_failed)
next
  case (transform_failed raw e)
  then show ?thesis by (simp add: main_transform_failed)
next
  case (save_failed raw stories e)
  then show ?thesis by (simp add: main_save_failed)
next
  case (summary_failed raw stories p e)
  then show ?thesis by (simp add: main_summary_failed)
next
  case (completed raw stories p counts)
  then show ?thesis by (simp add: main_completed)
qed

text \<open>
  The two example runs.
\<close>

lemma exampleEnv_fetch:
  "fst (fetchUserStories noNumberText exampleEnv (projectKey exampleConfig) 100) =
     Inr (JArr [issueWithStatus ''PROJ-1'' ''Open'', issueWithStatus ''PROJ-2'' ''Done''])"
  by (simp add: fetchUserStories_def exampleEnv_def getProp_def Let_def)

lemma exampleEnv_transform:
  "transformAll noNumberText exampleConfig
     (JArr [issueWithStatus ''PROJ-1'' ''Open'', issueWithStatus ''PROJ-2'' ''Done'']) =
   Inr [JObj
       [(''key'', JStr ''PROJ-1''), (''summary'', JStr ''S''),
        (''description'', JStr ''No description available''),
        (''status'', JObj [(''name'', JStr ''Open''), (''category'', JStr ''To Do'')]),
        (''priority'', JObj [(''name'', JStr ''None''), (''id'', JNull)]),
        (''assignee'', JNull), (''reporter'', JNull),
        (''created'', JUndefined), (''updated'', JUndefined),
        (''components'', JArr []), (''labels'', JArr []),
        (''fixVersions'', JArr []), (''storyPoints'', JNull),
        (''issueLinks'', JArr []),
        (''url'', JStr ''https://jira.example/browse/PROJ-1'')],
      JObj
       [(''key'', JStr ''PROJ-2''), (''summary'', JStr ''S''),
        (''description'', JStr ''No description available''),
        (''status'', JObj [(''name'', JStr ''Done''), (''category'', JStr ''To Do'')]),
        (''priority'', JObj [(''name'', JStr ''None''), (''id'', JNull)]),
        (''assignee'', JNull), (''reporter'', JNull),
        (''created'', JUndefined), (''updated'', JUndefined),
        (''components'', JArr []), (''labels'', JArr []),
        (''fixVersions'', JArr []), (''storyPoints'', JNull),
        (''issueLinks'', JArr []),
        (''url'', JStr ''https://jira.example/browse/PROJ-2'')]]"
  by (simp add: transformAll_def transform_defs issueWithStatus_def exampleConfig_def
      noNumberText_def)

lemma exampleEnv_exit: "exitCode (main noNumberText exampleConfig exampleEnv) = 0"
proof -
  have "\<exists>p. fst (saveToJSON exampleConfig exampleEnv stories ''jira-user-story.json'') = Inr p"
    for stories
    by (simp add: save_returns exampleEnv_def)
  then obtain p where saved: "fst (saveToJSON exampleConfig exampleEnv
       [JObj
       [(''key'', JStr ''PROJ-1''), (''summary'', JStr ''S''),
        (''description'', JStr ''No description available''),
        (''status'', JObj [(''name'', JStr ''Open''), (''category'', JStr ''To Do'')]),
        (''priority'', JObj [(''name'', JStr ''None''), (''id'', JNull)]),
        (''assignee'', JNull), (''reporter'', JNull),
        (''created'', JUndefined), (''updated'', JUndefined),
        (''components'', JArr []), (''labels'', JArr []),
        (''fixVersions'', JArr []), (''storyPoints'', JNull),
        (''issueLinks'', JArr []),
        (''url'', JStr ''https://jira.example/browse/PROJ-1'')],
      JObj
       [(''key'', JStr ''PROJ-2''), (''summary'', JStr ''S''),
        (''description'', JStr ''No description available''),
        (''status'', JObj [(''name'', JStr ''Done''), (''category'', JStr ''To Do'')]),
        (''priority'', JObj [(''name'', JStr ''None''), (''id'', JNull)]),
        (''assignee'', JNull), (''reporter'', JNull),
        (''created'', JUndefined), (''updated'', JUndefined),
        (''components'', JArr []), (''labels'', JArr []),
        (''fixVersions'', JArr []), (''storyPoints'', JNull),
        (''issueLinks'', JArr []),
        (''url'', JStr ''https://jira.example/browse/PROJ-2'')]] ''jira-user-story.json'') = Inr p"
    by blast
  show ?thesis
    unfolding exit_zero_iff
    apply (intro exI conjI)
       apply (rule exampleEnv_fetch)
      apply (rule exampleEnv_transform)
     apply (rule saved)
    apply (simp add: statusCounts_def countStatus_def getProp_def bumpCount_def
        objectPrototypeNames_def)
    done
qed

lemma failingEnv_fetch:
  "fst (fetchUserStories noNumberText failingEnv (projectKey exampleConfig) 100) =
     Inl (RequestError JUndefined ''timeout'')"
  by (simp add: fetchUserStories_def failingEnv_def exampleEnv_def Let_def)

section \<open>The written document\<close>

text \<open>
  Claim C6. In every run that ends with exit code 0, the fetch stage has returned an
  array of some \<open>N\<close> records, and the run has written exactly one file, the document at
  \<open>outputPath\<close>: its \<open>metadata.totalStories\<close> is \<open>N\<close>, its list \<open>userStories\<close> has length
  \<open>N\<close>, and its metadata carry the project key, the time read in saveToJSON and the
  base address.
\<close>

theorem written_document_counts:
  assumes "exitCode (main numberToString cfg env) = 0"
  shows "\<exists>xs doc rs.
           fst (fetchUserStories numberToString env (projectKey cfg) 100) = Inr (JArr xs)
         \<and> writtenFiles (trace (main numberToString cfg env)) = [(outputPath env, doc)]
         \<and> lookupProp (lookupProp doc ''metadata'') ''totalStories'' = JNum (of_nat (length xs))
         \<and> lookupProp doc ''userStories'' = JArr rs \<and> length rs = length xs
         \<and> lookupProp (lookupProp doc ''metadata'') ''projectKey'' = JStr (projectKey cfg)
         \<and> lookupProp (lookupProp doc ''metadata'') ''fetchedAt'' = JStr (now env)
         \<and> lookupProp (lookupProp doc ''metadata'') ''jiraBaseUrl'' = JStr (baseURL cfg)"
proof -
  from assms obtain raw stories p counts where
    fetched: "fst (fetchUserStories numberToString env (projectKey cfg) 100) = Inr raw" and
    transformed: "transformAll numberToString cfg raw = Inr stories" and
    saved: "fst (saveToJSON cfg env stories ''jira-user-story.json'') = Inr p" and
    counted: "statusCounts numberToString stories = Inr counts"
    unfolding exit_zero_iff by blast
  from transformed obtain xs where
    raw: "raw = JArr xs" and mapped: "mapE (transformUserStory numberToString cfg) xs = Inr stories"
    unfolding transformAll_eq_Inr by blast
  have len: "length stories = length xs"
    using mapped by (rule mapE_length)
  define doc where "doc = jsonValue (JObj
               [(''metadata'', JObj
                  [(''projectKey'', JStr (projectKey cfg)),
                   (''totalStories'', JNum (of_nat (length stories))),
                   (''fetchedAt'', JStr (now env)),
                   (''jiraBaseUrl'', JStr (baseURL cfg))]),
                (''userStories'', JArr stories)])"
  have files: "writtenFiles (trace (main numberToString cfg env)) = [(outputPath env, doc)]"
    by (simp add: main_completed [OF fetched transformed saved counted] fetch_trace_quiet
        save_written saved outputPath_def doc_def)
  have "lookupProp (lookupProp doc ''metadata'') ''totalStories'' = JNum (of_nat (length xs))"
    by (simp add: doc_def len)
  moreover have "lookupProp doc ''userStories'' =
      JArr (map (\<lambda>x. if x = JUndefined then JNull else jsonValue x) stories)"
    by (simp add: doc_def)
  moreover have "length (map (\<lambda>x. if x = JUndefined then JNull else jsonValue x) stories) = length xs"
    by (simp add: len)
  moreover have "lookupProp (lookupProp doc ''metadata'') ''projectKey'' = JStr (projectKey cfg)"
    "lookupProp (lookupProp doc ''metadata'') ''fetchedAt'' = JStr (now env)"
    "lookupProp (lookupProp doc ''metadata'') ''jiraBaseUrl'' = JStr (baseURL cfg)"
    by (simp_all add: doc_def)
  ultimately show ?thesis
    using fetched raw files by blast
qed

text \<open>
  The example run fetches two records and writes a document that counts two.
\<close>

theorem written_document_counts_witness:
  "exitCode (main noNumberText exampleConfig exampleEnv) = 0
   \<and> fst (fetchUserStories noNumberText exampleEnv (projectKey exampleConfig) 100) =
       Inr (JArr [issueWithStatus ''PROJ-1'' ''Open'', issueWithStatus ''PROJ-2'' ''Done''])
   \<and> (\<exists>doc rs.
         writtenFiles (trace (main noNumberText exampleConfig exampleEnv)) =
           [([''home'', ''app'', ''data'', ''jira-user-story.json''], doc)]
       \<and> lookupProp (lookupProp doc ''metadata'') ''totalStories'' = JNum 2
       \<and> lookupProp doc ''userStories'' = JArr rs \<and> length rs = 2)"
proof -
  have ok: "exitCode (main noNumberText exampleConfig exampleEnv) = 0"
    by (rule exampleEnv_exit)
  from written_document_counts [OF ok] obtain xs doc rs where
    "fst (fetchUserStories noNumberText exampleEnv (projectKey exampleConfig) 100) = Inr (JArr xs)"
    "writtenFiles (trace (main noNumberText exampleConfig exampleEnv)) = [(outputPath exampleEnv, doc)]"
    "lookupProp (lookupProp doc ''metadata'') ''totalStories'' = JNum (of_nat (length xs))"
    "lookupProp doc ''userStories'' = JArr rs" "length rs = length xs"
    by blast
  moreover have "outputPath exampleEnv = [''home'', ''app'', ''data'', ''jira-user-story.json'']"
    by (simp add: outputPath_def exampleEnv_def)
  ultimately show ?thesis
    using ok by (auto simp: exampleEnv_fetch)
qed

section \<open>Failure and exit code\<close>

text \<open>
  Claim C7, as amended. If the fetch stage throws, the run ends with exit code 1, without
  the transformation, without any call that changes the file system and without a
  written file, after the diagnostic of the error. If the transformation or the write
  stage throws, the run ends with exit code 1 after the diagnostic and no file has been
  written. If the three stages succeed, the summary that follows the write decides: when
  it returns, the run has written one file and ends with exit code 0 after the closing
  message, and it returns whenever every status name is a primitive value; when it
  throws, the file has been written all the same and the run ends with exit code 1 after
  the diagnostic. Every run ends with exit code 0 after the closing message or with exit
  code 1 after a diagnostic on the error stream, and the exit code is 0 exactly when the
  three stages and the summary have succeeded.
\<close>

theorem exit_contract:
  "(\<forall>e. fst (fetchUserStories numberToString env (projectKey cfg) 100) = Inl e \<longrightarrow>
        exitCode (main numberToString cfg env) = 1
      \<and> Log MsgTransforming \<notin> set (trace (main numberToString cfg env))
      \<and> \<not> list_ex mutatesFiles (trace (main numberToString cfg env))
      \<and> writtenFiles (trace (main numberToString cfg env)) = []
      \<and> last (trace (main numberToString cfg env)) = LogError (MsgProcessFailed e))
   \<and> (\<forall>raw e. fst (fetchUserStories numberToString env (projectKey cfg) 100) = Inr raw
          \<and> transformAll numberToString cfg raw = Inl e \<longrightarrow>
        exitCode (main numberToString cfg env) = 1
      \<and> \<not> list_ex mutatesFiles (trace (main numberToString cfg env))
      \<and> writtenFiles (trace (main numberToString cfg env)) = []
      \<and> last (trace (main numberToString cfg env)) = LogError (MsgProcessFailed e))
   \<and> (\<forall>raw stories e. fst (fetchUserStories numberToString env (projectKey cfg) 100) = Inr raw
          \<and> transformAll numberToString cfg raw = Inr stories
          \<and> fst (saveToJSON cfg env stories ''jira-user-story.json'') = Inl e \<longrightarrow>
        exitCode (main numberToString cfg env) = 1
      \<and> writtenFiles (trace (main numberToString cfg env)) = []
      \<and> last (trace (main numberToString cfg env)) = LogError (MsgProcessFailed e))
   \<and> (\<forall>raw stories p counts.
          fst (fetchUserStories numberToString env (projectKey cfg) 100) = Inr raw
          \<and> transformAll numberToString cfg raw = Inr stories
          \<and> fst (saveToJSON cfg env stories ''jira-user-story.json'') = Inr p
          \<and> statusCounts numberToString stories = Inr counts \<longrightarrow>
        exitCode (main numberToString cfg env) = 0
      \<and> length (writtenFiles (trace (main numberToString cfg env))) = 1
      \<and> last (trace (main numberToString cfg env)) = Log MsgCompleted)
   \<and> (\<forall>raw stories p. fst (fetchUserStories numberToString env (projectKey cfg) 100) = Inr raw
          \<and> transformAll numberToString cfg raw = Inr stories
          \<and> fst (saveToJSON cfg env stories ''jira-user-story.json'') = Inr p
          \<and> list_all (\<lambda>s. isPrimitive (lookupProp (lookupProp s ''status'') ''name'')) stories \<longrightarrow>
        exitCode (main numberToString cfg env) = 0
      \<and> length (writtenFiles (trace (main numberToString cfg env))) = 1
      \<and> last (trace (main numberToString cfg env)) = Log MsgCompleted)
   \<and> (\<forall>raw stories p e.
          fst (fetchUserStories numberToString env (projectKey cfg) 100) = Inr raw
          \<and> transformAll numberToString cfg raw = Inr stories
          \<and> fst (saveToJSON cfg env stories ''jira-user-story.json'') = Inr p
          \<and> statusCounts numberToString stories = Inl e \<longrightarrow>
        exitCode (main numberToString cfg env) = 1
      \<and> length (writtenFiles (trace (main numberToString cfg env))) = 1
      \<and> last (trace (main numberToString cfg env)) = LogError (MsgProcessFailed e))
   \<and> (exitCode (main numberToString cfg env) = 0
        \<and> last (trace (main numberToString cfg env)) = Log MsgCompleted
      \<or> exitCode (main numberToString cfg env) = 1
        \<and> (\<exists>e. last (trace (main numberToString cfg env)) = LogError (MsgProcessFailed e)))
   \<and> (exitCode (main numberToString cfg env) = 0 \<longleftrightarrow>
        (\<exists>raw stories p counts.
           fst (fetchUserStories numberToString env (projectKey cfg) 100) = Inr raw
         \<and> transformAll numberToString cfg raw = Inr stories
         \<and> fst (saveToJSON cfg env stories ''jira-user-story.json'') = Inr p
         \<and> statusCounts numberToString stories = Inr counts))"
proof -
  let ?fetch = "fetchUserStories numberToString env (projectKey cfg) 100"
  let ?run = "main numberToString cfg env"
  have a: "exitCode ?run = 1 \<and> Log MsgTransforming \<notin> set (trace ?run)
      \<and> \<not> list_ex mutatesFiles (trace ?run) \<and> writtenFiles (trace ?run) = []
      \<and> last (trace ?run) = LogError (MsgProcessFailed e)"
    if "fst ?fetch = Inl e" for e
    by (simp add: main_fetch_failed [OF that] fetch_trace_quiet)
  have b: "exitCode ?run = 1 \<and> \<not> list_ex mutatesFiles (trace ?run)
      \<and> writtenFiles (trace ?run) = [] \<and> last (trace ?run) = LogError (MsgProcessFailed e)"
    if "fst ?fetch = Inr raw" "transformAll numberToString cfg raw = Inl e" for raw e
    by (simp add: main_transform_failed [OF that] fetch_trace_quiet)
  have c: "exitCode ?run = 1 \<and> writtenFiles (trace ?run) = []
      \<and> last (trace ?run) = LogError (MsgProcessFailed e)"
    if "fst ?fetch = Inr raw" "transformAll numberToString cfg raw = Inr stories"
      "fst (saveToJSON cfg env stories ''jira-user-story.json'') = Inl e" for raw stories e
    by (simp add: main_save_failed [OF that] fetch_trace_quiet save_written that(3))
  have d: "exitCode ?run = 0 \<and> length (writtenFiles (trace ?run)) = 1
      \<and> last (trace ?run) = Log MsgCompleted"
    if fetched: "fst ?fetch = Inr raw" and transformed: "transformAll numberToString cfg raw = Inr stories"
      and saved: "fst (saveToJSON cfg env stories ''jira-user-story.json'') = Inr p"
      and counted: "statusCounts numberToString stories = Inr counts"
    for raw stories p counts
    by (simp add: main_completed [OF fetched transformed saved counted] fetch_trace_quiet
        save_written saved)
  have d': "exitCode ?run = 0 \<and> length (writtenFiles (trace ?run)) = 1
      \<and> last (trace ?run) = Log MsgCompleted"
    if fetched: "fst ?fetch = Inr raw" and transformed: "transformAll numberToString cfg raw = Inr stories"
      and saved: "fst (saveToJSON cfg env stories ''jira-user-story.json'') = Inr p"
      and names: "list_all (\<lambda>s. isPrimitive (lookupProp (lookupProp s ''status'') ''name'')) stories"
    for raw stories p
  proof -
    obtain counts where "statusCounts numberToString stories = Inr counts"
      using statusCounts_returns [OF transformed names] by blast
    with fetched transformed saved show ?thesis
      by (rule d)
  qed
  have g: "exitCode ?run = 1 \<and> length (writtenFiles (trace ?run)) = 1
      \<and> last (trace ?run) = LogError (MsgProcessFailed e)"
    if fetched: "fst ?fetch = Inr raw" and transformed: "transformAll numberToString cfg raw = Inr stories"
      and saved: "fst (saveToJSON cfg env stories ''jira-user-story.json'') = Inr p"
      and thrown: "statusCounts numberToString stories = Inl e"
    for raw stories p e
    by (simp add: main_summary_failed [OF fetched transformed saved thrown] fetch_trace_quiet
        save_written saved)
  have e: "exitCode ?run = 0 \<and> last (trace ?run) = Log MsgCompleted
      \<or> exitCode ?run = 1 \<and> (\<exists>e. last (trace ?run) = LogError (MsgProcessFailed e))"
    by (rule exit_code_and_diagnostic)
  have f: "exitCode ?run = 0 \<longleftrightarrow>
        (\<exists>raw stories p counts. fst ?fetch = Inr raw
         \<and> transformAll numberToString cfg raw = Inr stories
         \<and> fst (saveToJSON cfg env stories ''jira-user-story.json'') = Inr p
         \<and> statusCounts numberToString stories = Inr counts)"
    by (rule exit_zero_iff)
  have "\<forall>e. fst ?fetch = Inl e \<longrightarrow>
        exitCode ?run = 1 \<and> Log MsgTransforming \<notin> set (trace ?run)
      \<and> \<not> list_ex mutatesFiles (trace ?run) \<and> writtenFiles (trace ?run) = []
      \<and> last (trace ?run) = LogError (MsgProcessFailed e)"
    using a by blast
  moreover have "\<forall>raw e. fst ?fetch = Inr raw \<and> transformAll numberToString cfg raw = Inl e \<longrightarrow>
        exitCode ?run = 1 \<and> \<not> list_ex mutatesFiles (trace ?run)
      \<and> writtenFiles (trace ?run) = [] \<and> last (trace ?run) = LogError (MsgProcessFailed e)"
    using b by blast
  moreover have "\<forall>raw stories e. fst ?fetch = Inr raw
          \<and> transformAll numberToString cfg raw = Inr stories
          \<and> fst (saveToJSON cfg env stories ''jira-user-story.json'') = Inl e \<longrightarrow>
        exitCode ?run = 1 \<and> writtenFiles (trace ?run) = []
      \<and> last (trace ?run) = LogError (MsgProcessFailed e)"
    using c by blast
  moreover have "\<forall>raw stories p counts. fst ?fetch = Inr raw
          \<and> transformAll numberToString cfg raw = Inr stories
          \<and> fst (saveToJSON cfg env stories ''jira-user-story.json'') = Inr p
          \<and> statusCounts numberToString stories = Inr counts \<longrightarrow>
        exitCode ?run = 0 \<and> length (writtenFiles (trace ?run)) = 1
      \<and> last (trace ?run) = Log MsgCompleted"
    using d by blast
  moreover have "\<forall>raw stories p. fst ?fetch = Inr raw
          \<and> transformAll numberToString cfg raw = Inr stories
          \<and> fst (saveToJSON cfg env stories ''jira-user-story.json'') = Inr p
          \<and> list_all (\<lambda>s. isPrimitive (lookupProp (lookupProp s ''status'') ''name'')) stories \<longrightarrow>
        exitCode ?run = 0 \<and> length (writtenFiles (trace ?run)) = 1
      \<and> last (trace ?run) = Log MsgCompleted"
    using d' by blast
  moreover have "\<forall>raw stories p e. fst ?fetch = Inr raw
          \<and> transformAll numberToString cfg raw = Inr stories
          \<and> fst (saveToJSON cfg env stories ''jira-user-story.json'') = Inr p
          \<and> statusCounts numberToString stories = Inl e \<longrightarrow>
        exitCode ?run = 1 \<and> length (writtenFiles (trace ?run)) = 1
      \<and> last (trace ?run) = LogError (MsgProcessFailed e)"
    using g by blast
  ultimately show ?thesis
    using e f by (intro conjI)
qed

text \<open>
  The run with the rejected request ends with exit code 1 and no file; the example run,
  whose status names are strings, ends with exit code 0.
\<close>

theorem exit_contract_witness:
  "fst (fetchUserStories noNumberText failingEnv (projectKey exampleConfig) 100) =
     Inl (RequestError JUndefined ''timeout'')
   \<and> exitCode (main noNumberText exampleConfig failingEnv) = 1
   \<and> writtenFiles (trace (main noNumberText exampleConfig failingEnv)) = []
   \<and> last (trace (main noNumberText exampleConfig failingEnv)) =
       LogError (MsgProcessFailed (RequestError JUndefined ''timeout''))
   \<and> exitCode (main noNumberText exampleConfig exampleEnv) = 0
   \<and> last (trace (main noNumberText exampleConfig exampleEnv)) = Log MsgCompleted"
proof -
  note failure = exit_contract [of noNumberText failingEnv exampleConfig]
  note success = exit_contract [of noNumberText exampleEnv exampleConfig]
  have ok: "exitCode (main noNumberText exampleConfig exampleEnv) = 0"
    by (rule exampleEnv_exit)
  from failure [THEN conjunct1] failingEnv_fetch
  have "exitCode (main noNumberText exampleConfig failingEnv) = 1
   \<and> writtenFiles (trace (main noNumberText exampleConfig failingEnv)) = []
   \<and> last (trace (main noNumberText exampleConfig failingEnv)) =
       LogError (MsgProcessFailed (RequestError JUndefined ''timeout''))"
    by simp
  moreover
  from success [THEN conjunct2, THEN conjunct2, THEN conjunct2, THEN conjunct2,
      THEN conjunct2, THEN conjunct2, THEN conjunct1] ok
  have "last (trace (main noNumberText exampleConfig exampleEnv)) = Log MsgCompleted"
    by simp
  ultimately show ?thesis
    using ok failingEnv_fetch by simp
qed

text \<open>
  Claim C7 as stated fails. In the run \<open>oddStatusEnv\<close> the three stages succeed and the
  document is written; the summary then cannot make a property key of the status name
  and throws, inside the same \<open>try\<close> block, and the run ends with exit code 1.
\<close>

theorem written_file_yet_exit_code_one:
  "fst (fetchUserStories noNumberText oddStatusEnv (projectKey exampleConfig) 100) =
     Inr (JArr [oddStatusIssue])
   \<and> transformAll noNumberText exampleConfig (JArr [oddStatusIssue]) = Inr [oddStatusStory]
   \<and> fst (saveToJSON exampleConfig oddStatusEnv [oddStatusStory] ''jira-user-story.json'') =
       Inr [''home'', ''app'', ''data'', ''jira-user-story.json'']
   \<and> exitCode (main noNumberText exampleConfig oddStatusEnv) = 1
   \<and> length (writtenFiles (trace (main noNumberText exampleConfig oddStatusEnv))) = 1
   \<and> last (trace (main noNumberText exampleConfig oddStatusEnv)) =
       LogError (MsgProcessFailed TypeError)"
proof -
  have fetched: "fst (fetchUserStories noNumberText oddStatusEnv (projectKey exampleConfig) 100) =
     Inr (JArr [oddStatusIssue])"
    by (simp add: fetchUserStories_def oddStatusEnv_def exampleEnv_def getProp_def Let_def)
  have transformed:
    "transformAll noNumberText exampleConfig (JArr [oddStatusIssue]) = Inr [oddStatusStory]"
    by (simp add: transformAll_def transform_defs oddStatusIssue_def oddStatusStory_def
        exampleConfig_def noNumberText_def)
  have saved:
    "fst (saveToJSON exampleConfig oddStatusEnv [oddStatusStory] ''jira-user-story.json'') =
       Inr [''home'', ''app'', ''data'', ''jira-user-story.json'']"
    by (simp add: save_returns oddStatusEnv_def exampleEnv_def)
  have thrown: "statusCounts noNumberText [oddStatusStory] = Inl TypeError"
    by (simp add: statusCounts_def countStatus_def getProp_def oddStatusStory_def)
  have "exitCode (main noNumberText exampleConfig oddStatusEnv) = 1
   \<and> length (writtenFiles (trace (main noNumberText exampleConfig oddStatusEnv))) = 1
   \<and> last (trace (main noNumberText exampleConfig oddStatusEnv)) =
       LogError (MsgProcessFailed TypeError)"
    by (simp add: main_summary_failed [OF fetched transformed saved thrown] fetch_trace_quiet
        save_written saved)
  with fetched transformed saved show ?thesis
    by blast
qed

section \<open>The status histogram\<close>

text \<open>
  For a batch whose status names are strings, and a name that \<open>Object.prototype\<close> does
  not define, the histogram maps the name to the number of its records.
\<close>

lemma bumpCount_other:
  "map_of (bumpCount acc k') k = map_of acc k" if "k' \<noteq> k"
proof (cases "map_of acc k'")
  case None
  then show ?thesis
    using that by (auto simp: bumpCount_def update_conv')
next
  case (Some t)
  then show ?thesis
    using that by (cases t) (auto simp: bumpCount_def update_conv')
qed

lemma bumpCount_same:
  assumes "k \<notin> set objectPrototypeNames" and "\<forall>s. map_of acc k \<noteq> Some (Text s)"
  shows "map_of (bumpCount acc k) k = Some (Count (tallyAt acc k + 1))"
proof -
  have "k \<noteq> ''__proto__''"
    using assms(1) by (auto simp: objectPrototypeNames_def)
  show ?thesis
  proof (cases "map_of acc k")
    case None
    then show ?thesis
      using assms(1) \<open>k \<noteq> ''__proto__''\<close> by (simp add: bumpCount_def tallyAt_def update_conv')
  next
    case (Some t)
    then show ?thesis
      using assms(2) by (cases t) (simp_all add: bumpCount_def tallyAt_def update_conv')
  qed
qed

lemma countStatus_string:
  assumes "\<not> nullish story" and "\<not> nullish (lookupProp story ''status'')"
    and "lookupProp (lookupProp story ''status'') ''name'' = JStr k'"
  shows "countStatus n acc story = Inr (bumpCount acc k')"
  using assms by (simp add: countStatus_def getProp_def)

lemma reduce_counts:
  assumes "list_all (\<lambda>s. \<not> nullish s \<and> \<not> nullish (lookupProp s ''status'') \<and>
             isStr (lookupProp (lookupProp s ''status'') ''name'')) stories"
    and "k \<notin> set objectPrototypeNames"
    and "\<forall>s. map_of acc k \<noteq> Some (Text s)"
  shows "\<exists>r. reduceE (countStatus n) acc stories = Inr r \<and>
           map_of r k =
             (let occ = length (filter (\<lambda>s. lookupProp (lookupProp s ''status'') ''name'' = JStr k) stories)
              in if occ = 0 then map_of acc k else Some (Count (tallyAt acc k + occ)))"
  using assms
proof (induction stories arbitrary: acc)
  case Nil
  show ?case by simp
next
  case (Cons x xs)
  from Cons.prems(1) have x: "\<not> nullish x" "\<not> nullish (lookupProp x ''status'')"
    and xs: "list_all (\<lambda>s. \<not> nullish s \<and> \<not> nullish (lookupProp s ''status'') \<and>
             isStr (lookupProp (lookupProp s ''status'') ''name'')) xs"
    by simp_all
  from Cons.prems(1) obtain k' where name: "lookupProp (lookupProp x ''status'') ''name'' = JStr k'"
    by (cases "lookupProp (lookupProp x ''status'') ''name''") simp_all
  have step: "countStatus n acc x = Inr (bumpCount acc k')"
    using x name by (rule countStatus_string)
  show ?case
  proof (cases "k' = k")
    case True
    have here: "map_of (bumpCount acc k) k = Some (Count (tallyAt acc k + 1))"
      using Cons.prems(2,3) by (rule bumpCount_same)
    then have clean: "\<forall>s. map_of (bumpCount acc k) k \<noteq> Some (Text s)"
      and t: "tallyAt (bumpCount acc k) k = tallyAt acc k + 1"
      by (simp_all add: tallyAt_def)
    from Cons.IH [OF xs Cons.prems(2) clean] obtain r where
      "reduceE (countStatus n) (bumpCount acc k) xs = Inr r"
      "map_of r k =
             (let occ = length (filter (\<lambda>s. lookupProp (lookupProp s ''status'') ''name'' = JStr k) xs)
              in if occ = 0 then map_of (bumpCount acc k) k
                 else Some (Count (tallyAt (bumpCount acc k) k + occ)))"
      by blast
    then show ?thesis
      using step True name here t by (simp add: Let_def)
  next
    case False
    have same: "map_of (bumpCount acc k') k = map_of acc k"
      using False by (rule bumpCount_other)
    then have clean: "\<forall>s. map_of (bumpCount acc k') k \<noteq> Some (Text s)"
      and t: "tallyAt (bumpCount acc k') k = tallyAt acc k"
      using Cons.prems(3) by (simp_all add: tallyAt_def)
    from Cons.IH [OF xs Cons.prems(2) clean] obtain r where
      "reduceE (countStatus n) (bumpCount acc k') xs = Inr r"
      "map_of r k =
             (let occ = length (filter (\<lambda>s. lookupProp (lookupProp s ''status'') ''name'' = JStr k) xs)
              in if occ = 0 then map_of (bumpCount acc k') k
                 else Some (Count (tallyAt (bumpCount acc k') k + occ)))"
      by blast
    then show ?thesis
      using step False name same t by (simp add: Let_def)
  qed
qed

lemma statusCounts_counts:
  assumes "list_all (\<lambda>s. \<not> nullish s \<and> \<not> nullish (lookupProp s ''status'') \<and>
             isStr (lookupProp (lookupProp s ''status'') ''name'')) stories"
    and "k \<notin> set objectPrototypeNames"
  shows "\<exists>counts. statusCounts n stories = Inr counts \<and>
           map_of counts k =
             (let occ = length (filter (\<lambda>s. lookupProp (lookupProp s ''status'') ''name'' = JStr k) stories)
              in if occ = 0 then None else Some (Count occ))"
  using reduce_counts [OF assms, of "[]" n] by (auto simp: statusCounts_def tallyAt_def Let_def)

text \<open>
  The example of the specification: statuses Open, Open, Done.
\<close>

lemma histogram_example:
  "ebind (transformAll noNumberText exampleConfig
            (JArr [issueWithStatus ''PROJ-1'' ''Open'', issueWithStatus ''PROJ-2'' ''Open'',
                   issueWithStatus ''PROJ-3'' ''Done'']))
         (statusCounts noNumberText) =
     Inr [(''Open'', Count 2), (''Done'', Count 1)]"
  by (simp add: transformAll_def transform_defs issueWithStatus_def exampleConfig_def
      noNumberText_def statusCounts_def countStatus_def bumpCount_def
      objectPrototypeNames_def inheritedText_def)

text \<open>
  Claim C8 says that the histogram maps every status name to the number of its records.
  The accumulator is an object literal, so a read of the name \<open>constructor\<close> finds the
  inherited function: for the statuses Open and constructor the code stores a string
  under \<open>constructor\<close>, not the number 1.
\<close>

theorem histogram_miscounts_inherited_name:
  "ebind (transformAll noNumberText exampleConfig
            (JArr [issueWithStatus ''PROJ-1'' ''Open'', issueWithStatus ''PROJ-2'' ''constructor'']))
         (statusCounts noNumberText) =
     Inr [(''Open'', Count 1), (''constructor'', Text ''function Object() { [native code] }1'')]"
  by (simp add: transformAll_def transform_defs issueWithStatus_def exampleConfig_def
      noNumberText_def statusCounts_def countStatus_def bumpCount_def
      objectPrototypeNames_def inheritedText_def)

end
